theory Spec2Isabelle
  imports Complex_Main "HOL-Library.Sublist"
begin

section \<open>Python text\<close>

text \<open>
  A Python \<open>str\<close> is a sequence of Unicode code points. The sources hold Russian text, the
  Unicode minus sign and no-break spaces, so a character is modelled by its code point
  (a natural number) and a string by the list of its code points. \<open>asc\<close> reads an ASCII
  literal; a literal with other characters is written as the list of its code points, with
  the place of the literal in the source beside it.
\<close>

type_synonym pystr = "nat list"

definition asc :: "string \<Rightarrow> pystr" where
  "asc cs = map of_char cs"

text \<open>\<open>s.startswith(p)\<close> and the substring test \<open>p in s\<close>.\<close>

fun startswith :: "pystr \<Rightarrow> pystr \<Rightarrow> bool" where
  "startswith s [] = True"
| "startswith [] (p # ps) = False"
| "startswith (c # s) (p # ps) = (c = p \<and> startswith s ps)"

fun contains :: "pystr \<Rightarrow> pystr \<Rightarrow> bool" where
  "contains [] p = (p = [])"
| "contains (c # s) p = (startswith (c # s) p \<or> contains s p)"

definition endswith :: "pystr \<Rightarrow> pystr \<Rightarrow> bool" where
  "endswith s p = startswith (rev s) (rev p)"

text \<open>
  \<open>str.isspace\<close>, which is also the class \<open>\s\<close> of a \<open>str\<close> pattern: the ASCII white space,
  the separators U+001C to U+001F, NEL, the no-break spaces and the Unicode space separators.
\<close>

definition isspace :: "nat \<Rightarrow> bool" where
  "isspace c = ((9 \<le> c \<and> c \<le> 13) \<or> (28 \<le> c \<and> c \<le> 32) \<or> c = 133 \<or> c = 160 \<or> c = 5760 \<or>
     (8192 \<le> c \<and> c \<le> 8202) \<or> c = 8232 \<or> c = 8233 \<or> c = 8239 \<or> c = 8287 \<or> c = 12288)"

text \<open>
  The class \<open>\d\<close>. Python lets it match every Unicode decimal digit; the model keeps the
  ASCII digits, the only ones the pages and the claims use.
\<close>

definition isdigit :: "nat \<Rightarrow> bool" where
  "isdigit c = (48 \<le> c \<and> c \<le> 57)"

text \<open>
  \<open>str.lower\<close> and \<open>str.upper\<close> on the two alphabets the sources write their tables in:
  Latin A-Z and Cyrillic U+0400 to U+042F. Other code points are left as they are.
\<close>

definition lower_cp :: "nat \<Rightarrow> nat" where
  "lower_cp c = (if 65 \<le> c \<and> c \<le> 90 then c + 32
                 else if 1040 \<le> c \<and> c \<le> 1071 then c + 32
                 else if 1024 \<le> c \<and> c \<le> 1039 then c + 80
                 else c)"

definition upper_cp :: "nat \<Rightarrow> nat" where
  "upper_cp c = (if 97 \<le> c \<and> c \<le> 122 then c - 32
                 else if 1072 \<le> c \<and> c \<le> 1103 then c - 32
                 else if 1104 \<le> c \<and> c \<le> 1119 then c - 80
                 else c)"

definition lower :: "pystr \<Rightarrow> pystr" where
  "lower s = map lower_cp s"

definition upper :: "pystr \<Rightarrow> pystr" where
  "upper s = map upper_cp s"

text \<open>\<open>s.strip()\<close>, and \<open>s.strip(chars)\<close>, \<open>s.rstrip(chars)\<close> for a set of characters.\<close>

definition rstrip_chars :: "nat list \<Rightarrow> pystr \<Rightarrow> pystr" where
  "rstrip_chars cs s = rev (dropWhile (\<lambda>c. c \<in> set cs) (rev s))"

definition strip_chars :: "nat list \<Rightarrow> pystr \<Rightarrow> pystr" where
  "strip_chars cs s = rstrip_chars cs (dropWhile (\<lambda>c. c \<in> set cs) s)"

definition strip :: "pystr \<Rightarrow> pystr" where
  "strip s = rev (dropWhile isspace (rev (dropWhile isspace s)))"

text \<open>\<open>s.replace(old, new)\<close> for a one-character \<open>old\<close>.\<close>

definition replace_cp :: "nat \<Rightarrow> pystr \<Rightarrow> pystr \<Rightarrow> pystr" where
  "replace_cp old new s = concat (map (\<lambda>c. if c = old then new else [c]) s)"

text \<open>\<open>sep.join(xs)\<close>.\<close>

fun join :: "pystr \<Rightarrow> pystr list \<Rightarrow> pystr" where
  "join sep [] = []"
| "join sep [x] = x"
| "join sep (x # y # ys) = x @ sep @ join sep (y # ys)"

text \<open>
  \<open>str(n)\<close> for an integer that is not negative, and the value of a run of ASCII digits
  (\<open>int(s)\<close>).
\<close>

function str_nat :: "int \<Rightarrow> pystr" where
  "str_nat n = (if n < 10 then [nat (48 + n)] else str_nat (n div 10) @ [nat (48 + n mod 10)])"
  by pat_completeness auto
termination
  by (relation "measure nat") auto

declare str_nat.simps [simp del]

definition digits_val :: "pystr \<Rightarrow> int" where
  "digits_val ds = foldl (\<lambda>a c. 10 * a + int (c - 48)) 0 ds"

section \<open>Numbers and units (parser\_investing\_generic.py)\<close>

text \<open>
  A Python \<open>float\<close> is modelled by the rational number it stands for: the comparisons, the
  products by a unit factor and the two-decimal rendering below are those of the numbers,
  and the rounding of binary64 is left out.
\<close>

type_synonym pyfloat = rat

text \<open>
  \<open>_UNIT_TOKENS\<close>: token, normalised unit name, factor, in the order of the source
  (lines 87 to 121).
\<close>

definition UNIT_TOKENS :: "(pystr \<times> pystr \<times> pyfloat) list" where
  "UNIT_TOKENS =
    [(asc ''%'', asc ''percent'', 1),
     (asc ''percent'', asc ''percent'', 1),
     ([1087, 1088, 1086, 1094], asc ''percent'', 1),
     (asc ''k'', asc ''thousand'', 1000),
     (asc ''thousand'', asc ''thousand'', 1000),
     (asc ''ths'', asc ''thousand'', 1000),
     ([1090, 1099, 1089], asc ''thousand'', 1000),
     ([1090, 1099, 1089, 46], asc ''thousand'', 1000),
     (asc ''m'', asc ''million'', 1000000),
     (asc ''mln'', asc ''million'', 1000000),
     (asc ''million'', asc ''million'', 1000000),
     ([1084, 1083, 1085], asc ''million'', 1000000),
     ([1084, 1083, 1085, 46], asc ''million'', 1000000),
     (asc ''mio'', asc ''million'', 1000000),
     (asc ''mio.'', asc ''million'', 1000000),
     (asc ''b'', asc ''billion'', 1000000000),
     (asc ''bn'', asc ''billion'', 1000000000),
     (asc ''bln'', asc ''billion'', 1000000000),
     (asc ''billion'', asc ''billion'', 1000000000),
     ([1084, 1083, 1088, 1076], asc ''billion'', 1000000000),
     ([1084, 1083, 1088, 1076, 46], asc ''billion'', 1000000000),
     (asc ''t'', asc ''trillion'', 1000000000000),
     (asc ''trn'', asc ''trillion'', 1000000000000),
     (asc ''trillion'', asc ''trillion'', 1000000000000)]"

text \<open>\<open>_normalize_spaces\<close> (line 139): U+00A0 and U+202F become a space, then \<open>strip()\<close>.\<close>

definition normalize_spaces :: "pystr \<Rightarrow> pystr" where
  "normalize_spaces s = strip (replace_cp 8239 [32] (replace_cp 160 [32] s))"

subsection \<open>The number pattern\<close>

text \<open>
  \<open>RE_NUM\<close> is \<open>\(?\s*(CORE)\s*\)?\<close> with
  \<open>CORE = [+\-U+2212]?\s*\d{1,3}(?:[ U+00A0 U+202F]?\d{3})*(?:[.,]\d+)?\<close>.
  Python's matcher tries the greedy choice of every item first and backtracks only when a
  later item fails. Here the only item that can fail is \<open>\d{1,3}\<close>, which needs one digit,
  and no other choice for the items before it moves the place where that digit is looked
  for onto a digit: they consume only a parenthesis, white space and a sign. Everything
  after \<open>\d{1,3}\<close> may match the empty string. So the match at a position is the greedy one:
  \<open>re_digits3\<close> takes up to three digits, \<open>re_groups\<close> then takes groups of exactly three
  digits, each after at most one separator, and \<open>re_decimal\<close> takes one point or comma
  followed by digits.
\<close>

definition re_digits3 :: "pystr \<Rightarrow> (pystr \<times> pystr) option" where
  "re_digits3 s =
     (let d = takeWhile isdigit (take 3 s)
      in if d = [] then None else Some (d, drop (length d) s))"

definition is_group_sep :: "nat \<Rightarrow> bool" where
  "is_group_sep c = (c = 32 \<or> c = 160 \<or> c = 8239)"

definition three_digits :: "pystr \<Rightarrow> bool" where
  "three_digits s = (length (take 3 s) = 3 \<and> list_all isdigit (take 3 s))"

function re_groups :: "pystr \<Rightarrow> pystr \<times> pystr" where
  "re_groups s =
     (case s of
        [] \<Rightarrow> ([], [])
      | c # t \<Rightarrow>
          if is_group_sep c \<and> three_digits t then
            (let (g, r) = re_groups (drop 3 t) in (c # take 3 t @ g, r))
          else if three_digits s then
            (let (g, r) = re_groups (drop 3 s) in (take 3 s @ g, r))
          else ([], s))"
  by pat_completeness auto
termination
  by (relation "measure length") (auto simp: three_digits_def)

declare re_groups.simps [simp del]

definition re_decimal :: "pystr \<Rightarrow> pystr \<times> pystr" where
  "re_decimal s =
     (case s of
        [] \<Rightarrow> ([], [])
      | c # t \<Rightarrow>
          if (c = 46 \<or> c = 44) \<and> takeWhile isdigit t \<noteq> []
          then (c # takeWhile isdigit t, dropWhile isdigit t)
          else ([], s))"

definition is_sign :: "nat \<Rightarrow> bool" where
  "is_sign c = (c = 43 \<or> c = 45 \<or> c = 8722)"

text \<open>\<open>CORE\<close> at the start of \<open>s\<close>: the text of the group and what follows it.\<close>

definition re_num_core :: "pystr \<Rightarrow> (pystr \<times> pystr) option" where
  "re_num_core s =
     (let sg = (case s of [] \<Rightarrow> [] | c # _ \<Rightarrow> if is_sign c then [c] else []);
          s1 = drop (length sg) s;
          ws = takeWhile isspace s1;
          s2 = dropWhile isspace s1
      in case re_digits3 s2 of
           None \<Rightarrow> None
         | Some (d, s3) \<Rightarrow>
             (let (g, s4) = re_groups s3;
                  (f, s5) = re_decimal s4
              in Some (sg @ ws @ d @ g @ f, s5)))"

text \<open>
  \<open>RE_NUM\<close> at the start of \<open>s\<close>: \<open>group(1)\<close> and the text after the end of the match
  (\<open>s[m.end():]\<close>).
\<close>

definition re_num_at :: "pystr \<Rightarrow> (pystr \<times> pystr) option" where
  "re_num_at s =
     (let s1 = (case s of [] \<Rightarrow> [] | c # t \<Rightarrow> if c = 40 then t else s);
          s2 = dropWhile isspace s1
      in case re_num_core s2 of
           None \<Rightarrow> None
         | Some (g, s3) \<Rightarrow>
             (let s4 = dropWhile isspace s3;
                  s5 = (case s4 of [] \<Rightarrow> [] | c # t \<Rightarrow> if c = 41 then t else s4)
              in Some (g, s5)))"

text \<open>\<open>RE_NUM.search(s)\<close>: the match at the leftmost position that has one.\<close>

fun re_num_search :: "pystr \<Rightarrow> (pystr \<times> pystr) option" where
  "re_num_search [] = re_num_at []"
| "re_num_search (c # s) =
     (case re_num_at (c # s) of Some m \<Rightarrow> Some m | None \<Rightarrow> re_num_search s)"

subsection \<open>\<open>_to_float\<close>\<close>

text \<open>
  \<open>float(t)\<close> on the texts \<open>_to_float\<close> can pass to it: optional white space around, an
  optional sign, digits, and an optional point with digits. Any other text is the
  \<open>ValueError\<close> that \<open>_to_float\<close> turns into \<open>None\<close>.
\<close>

definition py_float :: "pystr \<Rightarrow> pyfloat option" where
  "py_float t0 =
     (let t = strip t0;
          neg = (t \<noteq> [] \<and> hd t = 45);
          u = (if t \<noteq> [] \<and> (hd t = 45 \<or> hd t = 43) then tl t else t);
          ip = takeWhile isdigit u;
          r = dropWhile isdigit u
      in if ip = [] then None
         else if r = [] then Some ((if neg then -1 else 1) * of_int (digits_val ip))
         else if hd r = 46 \<and> tl r \<noteq> [] \<and> list_all isdigit (tl r) then
           Some ((if neg then -1 else 1) *
                 (of_int (digits_val ip) + of_int (digits_val (tl r)) / 10 ^ length (tl r)))
         else None)"

definition to_float :: "pystr \<Rightarrow> bool \<Rightarrow> pyfloat option" where
  "to_float num_str paren_neg =
     (if num_str = [] then None
      else
        (let t0 = replace_cp 32 [] (replace_cp 8722 [45] (strip num_str));
             t = (if 44 \<in> set t0 \<and> 46 \<in> set t0 then replace_cp 44 [] t0
                  else if 44 \<in> set t0 \<and> 46 \<notin> set t0 then replace_cp 44 [46] t0
                  else t0)
         in case py_float t of
              None \<Rightarrow> None
            | Some val \<Rightarrow> Some (if paren_neg then - \<bar>val\<bar> else val)))"

subsection \<open>\<open>_extract_unit_token\<close> and \<open>_to_scalar\<close>\<close>

text \<open>
  \<open>re.findall\<close> of a pattern \<open>[class]+\<close>: the maximal runs of characters of the class, from
  left to right. \<open>runs P cur s\<close> carries the run being read in \<open>cur\<close>.
\<close>

fun runs :: "(nat \<Rightarrow> bool) \<Rightarrow> pystr \<Rightarrow> pystr \<Rightarrow> pystr list" where
  "runs P cur [] = (if cur = [] then [] else [cur])"
| "runs P cur (c # s) =
     (if P c then runs P (cur @ [c]) s
      else (if cur = [] then [] else [cur]) @ runs P [] s)"

text \<open>The class \<open>[a-z U+0430-U+044F . %]\<close> of lines 161 and 173.\<close>

definition is_unit_char :: "nat \<Rightarrow> bool" where
  "is_unit_char c = ((97 \<le> c \<and> c \<le> 122) \<or> (1072 \<le> c \<and> c \<le> 1103) \<or> c = 46 \<or> c = 37)"

definition in_unit_tokens :: "pystr \<Rightarrow> bool" where
  "in_unit_tokens t = (map_of UNIT_TOKENS t \<noteq> None)"

text \<open>
  \<open>_extract_unit_token\<close> (lines 158 to 178). The test for a noise word only continues the
  loop, so it has no effect and is not modelled. \<open>sfx\<close> is the suffix read after the number
  when no token matched.
\<close>

definition extract_unit_token :: "pystr \<Rightarrow> pystr option" where
  "extract_unit_token text_lower =
     (if 37 \<in> set text_lower then Some (asc ''%'')
      else
        (case find in_unit_tokens
                (map (\<lambda>tok. lower (strip_chars [46] tok)) (runs is_unit_char [] text_lower)) of
           Some t \<Rightarrow> Some t
         | None \<Rightarrow>
             (case re_num_search text_lower of
                None \<Rightarrow> None
              | Some (g, rest) \<Rightarrow>
                  (let tail = strip_chars (asc ''()[]{}:;'') (strip rest);
                       suf = takeWhile is_unit_char (take 7 tail);
                       t = lower (strip_chars [46] suf)
                   in if suf \<noteq> [] \<and> in_unit_tokens t then Some t else None))))"

text \<open>The no-data texts of line 188.\<close>

definition NO_DATA :: "pystr list" where
  "NO_DATA = [[8212], asc ''-'', [8226], [], asc ''n/a'', asc ''na'', [8212, 47, 8212],
              asc ''waiting'', asc ''pending'']"

text \<open>\<open>_to_scalar\<close> (lines 180 to 205): the value and the unit, each possibly \<open>None\<close>.\<close>

definition to_scalar :: "pystr \<Rightarrow> pyfloat option \<times> pystr option" where
  "to_scalar txt =
     (if txt = [] then (None, None)
      else
        (let raw = normalize_spaces txt in
         if lower raw \<in> set NO_DATA then (None, None)
         else
           (case re_num_search raw of
              None \<Rightarrow> (None, None)
            | Some (g, rest) \<Rightarrow>
                (let paren_neg = (startswith (strip raw) [40] \<and> endswith (strip raw) [41]) in
                 case to_float g paren_neg of
                   None \<Rightarrow> (None, None)
                 | Some num \<Rightarrow>
                     (case extract_unit_token (lower raw) of
                        None \<Rightarrow> (Some num, None)
                      | Some tok \<Rightarrow>
                          (case map_of UNIT_TOKENS tok of
                             None \<Rightarrow> (Some num, None)
                           | Some (norm_name, mul) \<Rightarrow> (Some (num * mul), Some norm_name)))))))"

subsection \<open>\<open>_fmt_val\<close>\<close>





section \<open>Table detection (parser\_investing\_generic.py)\<close>

text \<open>
  The parsed document is BeautifulSoup's. What the code reads of it is kept: the tables in
  document order (\<open>soup.select("table")\<close>) and, for each table, the texts of its header
  cells (\<open>th.get_text(" ", strip=True)\<close> for \<open>tb.select("thead th")\<close>) and the texts of
  the \<open>td\<close> cells of each of its body rows (\<open>tb.select("tbody tr")\<close>). A table is named by
  its position in the document.
\<close>

record table =
  thead_th :: "pystr list"
  tbody_tr :: "pystr list list"

text \<open>The header keywords, lines 130 to 132.\<close>

definition HEAD_ACTUAL_KEYS :: "pystr list" where
  "HEAD_ACTUAL_KEYS = [asc ''actual'', [1092, 1072, 1082, 1090], [1092, 1072, 1082, 1090, 1080, 1095]]"

definition HEAD_FORECAST_KEYS :: "pystr list" where
  "HEAD_FORECAST_KEYS =
     [asc ''forecast'', [1087, 1088, 1086, 1075, 1085, 1086, 1079], asc ''estimate'',
      asc ''consensus'', asc ''est.'', asc ''exp.'', asc ''expectation'']"

definition HEAD_PREV_KEYS :: "pystr list" where
  "HEAD_PREV_KEYS =
     [asc ''previous'', asc ''prior'', [1087, 1088, 1077, 1076, 46], [1087, 1088, 1077, 1076],
      [1087, 1088, 1077, 1076, 1099, 1076, 1091, 1097]]"

text \<open>\<open>any(k in h for k in keys)\<close>.\<close>

definition any_key_in :: "pystr list \<Rightarrow> pystr \<Rightarrow> bool" where
  "any_key_in keys h = list_ex (\<lambda>k. contains h k) keys"

text \<open>\<open>_idx_for\<close> (lines 222 to 226): the first header with a keyword, else the default.\<close>

fun idx_for_from :: "int \<Rightarrow> pystr list \<Rightarrow> pystr list \<Rightarrow> int \<Rightarrow> int" where
  "idx_for_from i [] keys dflt = dflt"
| "idx_for_from i (h # hs) keys dflt =
     (if any_key_in keys h then i else idx_for_from (i + 1) hs keys dflt)"

definition idx_for :: "pystr list \<Rightarrow> pystr list \<Rightarrow> int \<Rightarrow> int" where
  "idx_for heads keys dflt = idx_for_from 0 heads keys dflt"

text \<open>\<open>_score_heads\<close> (lines 229 to 235).\<close>

definition score_heads :: "pystr list \<Rightarrow> int" where
  "score_heads heads =
     (let line = join [32] heads
      in (if any_key_in HEAD_ACTUAL_KEYS line then 5 else 0) +
         (if any_key_in HEAD_FORECAST_KEYS line then 5 else 0) +
         (if any_key_in HEAD_PREV_KEYS line then 5 else 0))"

text \<open>
  The diagnostic dictionary: \<open>tables_found\<close>, \<open>note\<close> (here \<open>note_text\<close>), the \<open>candidates\<close> (heads and score),
  \<open>picked\<close> (heads, score and the \<open>fallback\<close> entry) and \<open>col_indexing\<close>, which
  \<open>fetch_table_rows\<close> adds.
\<close>

datatype fallback = NoFallback | FallbackRows | FallbackLastTable

record diag =
  tables_found :: nat
  note_text :: "pystr option"
  candidates :: "(pystr list \<times> int) list"
  picked :: "(pystr list \<times> int \<times> fallback) option"
  col_indexing :: "(int \<times> int \<times> int) option"

text \<open>Lines 246 and 247: the lower-cased header texts of a table and its score.\<close>

definition heads_of :: "table \<Rightarrow> pystr list" where
  "heads_of tb = map lower (thead_th tb)"

definition head_score :: "table \<Rightarrow> int" where
  "head_score tb = (if heads_of tb \<noteq> [] then score_heads (heads_of tb) else 0)"

text \<open>
  The first loop of \<open>_pick_target_table\<close> (lines 245 to 250): \<open>best\<close> is the table, its heads
  and its score, replaced only by a strictly greater score. \<open>i\<close> is the position of the
  table being read.
\<close>

fun best_loop ::
  "nat option \<times> pystr list \<times> int \<Rightarrow> nat \<Rightarrow> table list \<Rightarrow> nat option \<times> pystr list \<times> int" where
  "best_loop best i [] = best"
| "best_loop best i (tb # tbs) =
     best_loop (if head_score tb > snd (snd best) then (Some i, heads_of tb, head_score tb) else best)
       (Suc i) tbs"

text \<open>
  The second loop (lines 257 to 266): the first table one of whose first three body rows
  has five cells or more, one of them with a percent sign or a digit.
\<close>

definition row_shape_ok :: "pystr list \<Rightarrow> bool" where
  "row_shape_ok tds =
     (length tds \<ge> 5 \<and> list_ex (\<lambda>x. 37 \<in> set x \<or> list_ex isdigit x) tds)"

fun rows_loop :: "nat \<Rightarrow> table list \<Rightarrow> nat option" where
  "rows_loop i [] = None"
| "rows_loop i (tb # tbs) =
     (if list_ex (\<lambda>tr. row_shape_ok (map lower tr)) (take 3 (tbody_tr tb)) then Some i
      else rows_loop (Suc i) tbs)"

text \<open>
  \<open>_pick_target_table\<close> (lines 237 to 271). The result is the position of the table with
  its heads, or \<open>None\<close> for the pair \<open>None, None\<close>, and the diagnostic.
\<close>

definition pick_target_table :: "table list \<Rightarrow> (nat \<times> pystr list) option \<times> diag" where
  "pick_target_table tables =
     (if tables = [] then
        (None, \<lparr>tables_found = 0, note_text = Some (asc ''[TABLE] no <table> found''),
                candidates = [], picked = None, col_indexing = None\<rparr>)
      else
        (let best = best_loop (None, [], -1) 0 tables;
             d = \<lparr>tables_found = length tables, note_text = None,
                  candidates = map (\<lambda>tb. (heads_of tb, head_score tb)) tables,
                  picked = None, col_indexing = None\<rparr>
         in case fst best of
              Some b \<Rightarrow>
                if snd (snd best) > 0 then
                  (Some (b, fst (snd best)),
                   d\<lparr>picked := Some (fst (snd best), snd (snd best), NoFallback)\<rparr>)
                else
                  (case rows_loop 0 tables of
                     Some i \<Rightarrow>
                       (Some (i, heads_of (tables ! i)),
                        d\<lparr>picked := Some (heads_of (tables ! i), 1, FallbackRows)\<rparr>)
                   | None \<Rightarrow>
                       (Some (length tables - 1, heads_of (last tables)),
                        d\<lparr>picked := Some (heads_of (last tables), 0, FallbackLastTable)\<rparr>))
            | None \<Rightarrow>
                (case rows_loop 0 tables of
                   Some i \<Rightarrow>
                     (Some (i, heads_of (tables ! i)),
                      d\<lparr>picked := Some (heads_of (tables ! i), 1, FallbackRows)\<rparr>)
                 | None \<Rightarrow>
                     (Some (length tables - 1, heads_of (last tables)),
                      d\<lparr>picked := Some (heads_of (last tables), 0, FallbackLastTable)\<rparr>))))"

section \<open>Altseason classification (parser\_altseason.py)\<close>

text \<open>The four label literals and the four hints of \<open>classify_altseason\<close>, lines 112 to 117.\<close>

definition label_btc_season :: pystr where
  "label_btc_season =
     [128309, 32, 1057, 1077, 1079, 1086, 1085, 32, 1073, 1080, 1090, 1082, 1086, 1080, 1085, 1072]"

definition tip_btc_season :: pystr where
  "tip_btc_season =
     [1055, 1088, 1077, 1080, 1084, 1091, 1097, 1077, 1089, 1090, 1074, 1086, 32, 1079, 1072, 32,
      66, 84, 67, 45, 1087, 1072, 1088, 1072, 1084, 1080, 46]"

definition label_altseason :: pystr where
  "label_altseason = [128994, 32, 1040, 1083, 1100, 1090, 1089, 1077, 1079, 1086, 1085]"

definition tip_altseason :: pystr where
  "tip_altseason =
     [1040, 1083, 1100, 1090, 1099, 32, 1095, 1072, 1089, 1090, 1086, 32, 1086, 1073, 1075, 1086,
      1085, 1103, 1102, 1090, 32, 66, 84, 67, 46, 32, 1056, 1080, 1089, 1082, 1080, 32, 1074, 1099,
      1096, 1077, 46]"

definition label_close :: pystr where
  "label_close =
     [128993, 32, 1041, 1083, 1080, 1079, 1082, 1086, 32, 1082, 32, 1072, 1083, 1100, 1090, 1089,
      1077, 1079, 1086, 1085, 1091]"

definition tip_close :: pystr where
  "tip_close =
     [1057, 1083, 1077, 1076, 1080, 1084, 58, 32, 62, 54, 57, 32, 8212, 32, 1088, 1072, 1079, 1084,
      1086, 1088, 1086, 1079, 1082, 1072, 32, 1072, 1083, 1100, 1090, 1086, 1074, 44, 32, 62, 55, 53,
      32, 8212, 32, 1075, 1086, 1088, 1103, 1095, 1072, 1103, 32, 1092, 1072, 1079, 1072, 46]"

definition label_neutral :: pystr where
  "label_neutral =
     [9898, 65039, 32, 1053, 1077, 1081, 1090, 1088, 1072, 1083, 1100, 1085, 1072, 1103, 32, 1079,
      1086, 1085, 1072]"

definition tip_neutral :: pystr where
  "tip_neutral =
     [1071, 1074, 1085, 1086, 1075, 1086, 32, 1087, 1088, 1077, 1080, 1084, 1091, 1097, 1077, 1089,
      1090, 1074, 1072, 32, 1085, 1077, 1090, 46]"

text \<open>\<open>classify_altseason(value)\<close>: the three tests in the order of the source.\<close>

definition classify_altseason :: "int \<Rightarrow> pystr \<times> pystr" where
  "classify_altseason v =
     (if v \<le> 25 then (label_btc_season, tip_btc_season)
      else if v \<ge> 75 then (label_altseason, tip_altseason)
      else if v \<ge> 69 then (label_close, tip_close)
      else (label_neutral, tip_neutral))"

section \<open>The fetch pipeline (parser\_investing\_generic.py)\<close>

subsection \<open>\<open>_get\<close>\<close>

text \<open>
  The network is the environment. One call of a client either answers with a status code
  and a body or raises an exception, whose text \<open>str(e)\<close> is kept. An attempt holds what
  cloudscraper does and what requests does when it is called after it.
\<close>

datatype http = Resp int pystr | Raised pystr

record attempt =
  via_cloudscraper :: http
  via_requests :: http

definition str_int :: "int \<Rightarrow> pystr" where
  "str_int n = (if n < 0 then 45 # str_nat (- n) else str_nat n)"

text \<open>
  One client call inside attempt \<open>n\<close> (counted from 0): \<open>Inl\<close> is the return of line 65 or
  75 with the notes so far, \<open>Inr\<close> the new \<open>last_err\<close> and the notes.
\<close>

definition client_step ::
  "pystr \<Rightarrow> http \<Rightarrow> nat \<Rightarrow> pystr list \<Rightarrow> (int \<times> pystr \<times> pystr list) + (pystr \<times> pystr list)" where
  "client_step name r n notes =
     (case r of
        Resp code body \<Rightarrow>
          (let notes1 = notes @ [asc ''try'' @ str_int (int n + 1) @ asc '': '' @ name @
                                 asc '' -> HTTP '' @ str_int code]
           in if code = 200 \<and> body \<noteq> [] then Inl (code, body, notes1)
              else Inr (asc ''[NET] '' @ name @ asc '' HTTP '' @ str_int code, notes1))
      | Raised e \<Rightarrow>
          (let le = asc ''[NET] '' @ name @ asc '' fail: '' @ e in Inr (le, notes @ [le])))"

text \<open>
  The loop of \<open>_get\<close> over the attempts still to make, and its last line. The result is
  \<open>(status_code, text, err, debug_note)\<close>. The error left by cloudscraper is always
  overwritten by that of requests, as in the source.
\<close>

fun get_attempts ::
  "(nat \<Rightarrow> attempt) \<Rightarrow> nat list \<Rightarrow> pystr option \<Rightarrow> pystr list \<Rightarrow>
     int \<times> pystr option \<times> pystr option \<times> pystr" where
  "get_attempts net [] last_err notes =
     (0, None,
      Some (case last_err of
              None \<Rightarrow> asc ''[NET] network error''
            | Some e \<Rightarrow> if e = [] then asc ''[NET] network error'' else e),
      join (asc ''; '') notes)"
| "get_attempts net (n # ns) last_err notes =
     (case client_step (asc ''cloudscraper'') (via_cloudscraper (net n)) n notes of
        Inl (code, body, notes1) \<Rightarrow> (code, Some body, None, join (asc ''; '') notes1)
      | Inr (le1, notes1) \<Rightarrow>
          (case client_step (asc ''requests'') (via_requests (net n)) n notes1 of
             Inl (code, body, notes2) \<Rightarrow> (code, Some body, None, join (asc ''; '') notes2)
           | Inr (le2, notes2) \<Rightarrow> get_attempts net ns (Some le2) notes2))"

definition get :: "(nat \<Rightarrow> attempt) \<Rightarrow> int \<times> pystr option \<times> pystr option \<times> pystr" where
  "get net = get_attempts net [0, 1, 2] None []"

subsection \<open>Rows\<close>

text \<open>
  A row dictionary. A key that the source leaves out (\<open>revised_from_*\<close>, \<open>release_dt_iso\<close>)
  is \<open>None\<close> here, which is what \<open>row.get\<close> answers for it.
\<close>

record row =
  date :: pystr
  time :: pystr
  actual :: pystr
  forecast :: pystr
  previous :: pystr
  actual_val :: "pyfloat option"
  actual_unit :: "pystr option"
  forecast_val :: "pyfloat option"
  forecast_unit :: "pystr option"
  previous_val :: "pyfloat option"
  previous_unit :: "pystr option"
  revised_from_val :: "pyfloat option"
  revised_from_unit :: "pystr option"
  release_dt_iso :: "pystr option"

text \<open>
  \<open>RE_REVISED\<close> (line 137), case-insensitive:
  \<open>(?:revised\s+from|<Russian words>\s+<c>)\s+([^\s].*)\<close>. Each \<open>\s+\<close> is followed by
  a character that is not white space, so it takes the whole run; \<open>.*\<close> stops at a line
  feed. \<open>ci_prefix\<close> reads a literal without regard to case, \<open>ws_plus\<close> a run of white space.
\<close>

definition ci_prefix :: "pystr \<Rightarrow> pystr \<Rightarrow> pystr option" where
  "ci_prefix lit s =
     (if length lit \<le> length s \<and> map lower_cp (take (length lit) s) = map lower_cp lit
      then Some (drop (length lit) s) else None)"

definition ws_plus :: "pystr \<Rightarrow> pystr option" where
  "ws_plus s = (if takeWhile isspace s = [] then None else Some (dropWhile isspace s))"

definition two_words :: "pystr \<Rightarrow> pystr \<Rightarrow> pystr \<Rightarrow> pystr option" where
  "two_words w1 w2 s =
     (case ci_prefix w1 s of
        None \<Rightarrow> None
      | Some r1 \<Rightarrow> (case ws_plus r1 of None \<Rightarrow> None | Some r2 \<Rightarrow> ci_prefix w2 r2))"

definition re_revised_at :: "pystr \<Rightarrow> pystr option" where
  "re_revised_at s =
     (case (case two_words (asc ''revised'') (asc ''from'') s of
              Some r \<Rightarrow> Some r
            | None \<Rightarrow>
                two_words [1087, 1077, 1088, 1077, 1089, 1084, 1086, 1090, 1088, 1077, 1085, 1086]
                  [1089] s) of
        None \<Rightarrow> None
      | Some r \<Rightarrow>
          (case ws_plus r of
             None \<Rightarrow> None
           | Some r2 \<Rightarrow> if r2 = [] then None else Some (takeWhile (\<lambda>c. c \<noteq> 10) r2)))"

fun re_revised_search :: "pystr \<Rightarrow> pystr option" where
  "re_revised_search [] = None"
| "re_revised_search (c # s) =
     (case re_revised_at (c # s) of Some g \<Rightarrow> Some g | None \<Rightarrow> re_revised_search s)"

text \<open>\<open>_parse_revised\<close> (lines 207 to 217).\<close>

definition parse_revised :: "pystr \<Rightarrow> pyfloat option \<times> pystr option" where
  "parse_revised txt =
     (if txt = [] then (None, None)
      else case re_revised_search txt of
             None \<Rightarrow> (None, None)
           | Some g \<Rightarrow> to_scalar (strip g))"

text \<open>\<open>_clean\<close> (line 219): \<open>_normalize_spaces\<close>, then each pair of spaces becomes one.\<close>

fun replace_two_spaces :: "pystr \<Rightarrow> pystr" where
  "replace_two_spaces (a # b # s) =
     (if a = 32 \<and> b = 32 then 32 # replace_two_spaces s else a # replace_two_spaces (b # s))"
| "replace_two_spaces s = s"

definition clean :: "pystr \<Rightarrow> pystr" where
  "clean s = replace_two_spaces (normalize_spaces s)"

text \<open>
  The local function \<open>cell\<close> (lines 354 to 358): Python indexing, where a negative index
  counts from the end, and the empty text when the index is out of range.
\<close>

definition cell :: "pystr list \<Rightarrow> int \<Rightarrow> pystr" where
  "cell vals i =
     (let n = int (length vals); j = (if i < 0 then n + i else i)
      in if 0 \<le> j \<and> j < n then vals ! nat j else [])"

text \<open>\<open>xs[:n]\<close>.\<close>

definition slice_to :: "int \<Rightarrow> 'a list \<Rightarrow> 'a list" where
  "slice_to n xs = (if 0 \<le> n then take (nat n) xs else take (length xs - nat (- n)) xs)"

subsection \<open>\<open>fetch_table_rows\<close>\<close>

text \<open>
  What \<open>fetch_table_rows\<close> takes from outside: the network (for a URL, what each attempt
  meets), the HTML parser (\<open>BeautifulSoup(html, "html.parser")\<close>: the tables of the
  document, or the text of the exception it raises), the time stamp that \<open>_to_iso\<close>
  (lines 279 to 312) builds with pytz in the zone of the process from the date and time
  texts, and the text Python prints for the diagnostic dictionary in an f-string.
\<close>

record env =
  net_get :: "pystr \<Rightarrow> nat \<Rightarrow> attempt"
  html_parse :: "pystr \<Rightarrow> pystr + table list"
  to_iso :: "pystr \<Rightarrow> pystr \<Rightarrow> pystr option"
  repr_diag :: "diag \<Rightarrow> pystr"

text \<open>The body of the loop over the rows (lines 352 to 392), for a row that is kept.\<close>

definition mk_row :: "env \<Rightarrow> int \<Rightarrow> int \<Rightarrow> int \<Rightarrow> pystr list \<Rightarrow> row" where
  "mk_row e idx_actual idx_forecast idx_previous vals =
     (let date_text = cell vals 0;
          time_text = cell vals 1;
          actual_text = cell vals idx_actual;
          forecast_text = cell vals idx_forecast;
          previous_text = cell vals idx_previous;
          act = to_scalar actual_text;
          fc = to_scalar forecast_text;
          pr = to_scalar previous_text;
          rev = parse_revised actual_text
      in \<lparr>date = clean date_text, time = clean time_text, actual = clean actual_text,
          forecast = clean forecast_text, previous = clean previous_text,
          actual_val = fst act, actual_unit = snd act,
          forecast_val = fst fc, forecast_unit = snd fc,
          previous_val = fst pr, previous_unit = snd pr,
          revised_from_val = fst rev,
          revised_from_unit = (if fst rev = None then None else snd rev),
          release_dt_iso =
            (case to_iso e (clean date_text) (clean time_text) of
               None \<Rightarrow> None
             | Some s \<Rightarrow> if s = [] then None else Some s)\<rparr>)"

text \<open>
  \<open>fetch_table_rows(url, limit)\<close> (lines 315 to 397): the rows and the error, which is
  \<open>None\<close> or a text. Each \<open>except\<close> of the source is a branch here.
\<close>

definition fetch_table_rows :: "env \<Rightarrow> pystr \<Rightarrow> int \<Rightarrow> row list \<times> pystr option" where
  "fetch_table_rows e url limit =
     (case get (net_get e url) of
        (code, html, net_err, net_note) \<Rightarrow>
          if code \<noteq> 200 \<or> html = None \<or> html = Some [] then
            ([], Some ((case net_err of
                          None \<Rightarrow> asc ''[NET] HTTP error''
                        | Some x \<Rightarrow> if x = [] then asc ''[NET] HTTP error'' else x) @
                       asc '' | note: '' @ net_note))
          else
            (case html_parse e (the html) of
               Inl msg \<Rightarrow> ([], Some (asc ''[HTML] soup fail: '' @ msg))
             | Inr tables \<Rightarrow>
                 (case pick_target_table tables of
                    (None, d) \<Rightarrow> ([], Some (asc ''[TABLE] not found | diag: '' @ repr_diag e d))
                  | (Some (t, heads), d) \<Rightarrow>
                      (let idx_actual = idx_for heads HEAD_ACTUAL_KEYS (-3);
                           idx_forecast = idx_for heads HEAD_FORECAST_KEYS (-2);
                           idx_previous = idx_for heads HEAD_PREV_KEYS (-1);
                           d1 = d\<lparr>col_indexing := Some (idx_actual, idx_forecast, idx_previous)\<rparr>;
                           trs = tbody_tr (tables ! t);
                           bad_rows = length (filter (\<lambda>tds. length tds < 5) trs);
                           rows = map (mk_row e idx_actual idx_forecast idx_previous)
                                    (filter (\<lambda>tds. \<not> length tds < 5) trs)
                       in if rows = [] then
                            ([], Some (asc ''[ROW] no rows parsed | diag: '' @ repr_diag e d1 @
                                       asc '' | bad_rows: '' @ str_int (int bad_rows)))
                          else (slice_to limit rows, None)))))"

text \<open>The stage tags of the claim on errors; an error carries one when it begins with it.\<close>

definition stage_tagged :: "pystr \<Rightarrow> bool" where
  "stage_tagged err =
     list_ex (startswith err) [asc ''[NET]'', asc ''[HTML]'', asc ''[TABLE]'', asc ''[ROW]'']"

section \<open>Signal rules (indicators.py)\<close>

text \<open>The four rule functions, lines 26 to 53. Each reads two values of the row.\<close>

definition rule_long_if_actual_lt_forecast :: "row \<Rightarrow> pystr" where
  "rule_long_if_actual_lt_forecast r =
     (case (actual_val r, forecast_val r) of
        (Some a, Some f) \<Rightarrow> if a < f then asc ''LONG'' else asc ''SHORT''
      | _ \<Rightarrow> asc ''NEUTRAL'')"

definition rule_long_if_actual_gt_forecast :: "row \<Rightarrow> pystr" where
  "rule_long_if_actual_gt_forecast r =
     (case (actual_val r, forecast_val r) of
        (Some a, Some f) \<Rightarrow> if a > f then asc ''LONG'' else asc ''SHORT''
      | _ \<Rightarrow> asc ''NEUTRAL'')"

definition rule_short_if_actual_gt_forecast :: "row \<Rightarrow> pystr" where
  "rule_short_if_actual_gt_forecast r =
     (case (actual_val r, forecast_val r) of
        (Some a, Some f) \<Rightarrow> if a > f then asc ''SHORT'' else asc ''LONG''
      | _ \<Rightarrow> asc ''NEUTRAL'')"

definition rule_fomc_rate :: "row \<Rightarrow> pystr" where
  "rule_fomc_rate r =
     (case (actual_val r, forecast_val r) of
        (Some a, Some f) \<Rightarrow> if a < f then asc ''LONG'' else asc ''SHORT''
      | _ \<Rightarrow> asc ''NEUTRAL'')"

text \<open>\<open>_RULES\<close> (lines 56 to 60), the rule codes of custom indicators.\<close>

definition RULES :: "(pystr \<times> (row \<Rightarrow> pystr)) list" where
  "RULES =
     [(asc ''LT'', rule_long_if_actual_lt_forecast),
      (asc ''GT'', rule_long_if_actual_gt_forecast),
      (asc ''FOMC'', rule_fomc_rate)]"

text \<open>
  The \<open>rule\<close> entry of an indicator is a Python object: a function, a text or \<open>None\<close>
  (\<open>_signal_from_rows\<close> tests \<open>callable(rule)\<close> and \<open>isinstance(rule, str)\<close>).
\<close>

datatype rule = Callable "row \<Rightarrow> pystr" | RuleStr pystr | RuleNone

record indicator =
  title :: pystr
  url :: pystr
  rule :: rule

text \<open>\<open>PRESET_INDICATORS\<close> (lines 63 to 118), in the order of the source.\<close>

definition PRESET_INDICATORS :: "(pystr \<times> indicator) list" where
  "PRESET_INDICATORS =
     [(asc ''CPI'',
       \<lparr>title =
          [1048, 1085, 1076, 1077, 1082, 1089, 32, 1087, 1086, 1090, 1088, 1077, 1073, 1080,
           1090, 1077, 1083, 1100, 1089, 1082, 1080, 1093, 32, 1094, 1077, 1085, 32, 40, 67,
           80, 73, 32, 47, 32, 67, 111, 114, 101, 32, 67, 80, 73, 41],
        url = asc ''https://www.investing.com/economic-calendar/core-cpi-56'',
        rule = Callable rule_short_if_actual_gt_forecast\<rparr>),
      (asc ''PPI'',
       \<lparr>title =
          [1048, 1085, 1076, 1077, 1082, 1089, 32, 1094, 1077, 1085, 32, 1087, 1088, 1086,
           1080, 1079, 1074, 1086, 1076, 1080, 1090, 1077, 1083, 1077, 1081, 32, 40, 80, 80,
           73, 41],
        url = asc ''https://ru.investing.com/economic-calendar/ppi-238'',
        rule = Callable rule_short_if_actual_gt_forecast\<rparr>),
      (asc ''CORE_PCE'',
       \<lparr>title =
          [1041, 1072, 1079, 1086, 1074, 1099, 1081, 32, 1094, 1077, 1085, 1086, 1074, 1086,
           1081, 32, 1080, 1085, 1076, 1077, 1082, 1089, 32, 1088, 1072, 1089, 1093, 1086,
           1076, 1086, 1074, 32, 1085, 1072, 32, 1083, 1080, 1095, 1085, 1086, 1077, 32, 1087,
           1086, 1090, 1088, 1077, 1073, 1083, 1077, 1085, 1080, 1077, 32, 40, 67, 111, 114,
           101, 32, 80, 67, 69, 41, 44, 32, 1084, 47, 1084],
        url = asc ''https://ru.investing.com/economic-calendar/core-pce-price-index-61'',
        rule = Callable rule_short_if_actual_gt_forecast\<rparr>),
      (asc ''NFP'',
       \<lparr>title =
          [1053, 1077, 1089, 1077, 1083, 1100, 1089, 1082, 1086, 1093, 1086, 1079, 1103, 1081,
           1089, 1090, 1074, 1077, 1085, 1085, 1072, 1103, 32, 1079, 1072, 1085, 1103, 1090,
           1086, 1089, 1090, 1100, 32, 40, 78, 70, 80, 41],
        url = asc ''https://www.investing.com/economic-calendar/nonfarm-payrolls-227'',
        rule = Callable rule_short_if_actual_gt_forecast\<rparr>),
      (asc ''RETAIL_SALES'',
       \<lparr>title =
          [1056, 1086, 1079, 1085, 1080, 1095, 1085, 1099, 1077, 32, 1087, 1088, 1086, 1076,
           1072, 1078, 1080],
        url = asc ''https://www.investing.com/economic-calendar/retail-sales-256'',
        rule = Callable rule_short_if_actual_gt_forecast\<rparr>),
      (asc ''UNEMPLOYMENT'',
       \<lparr>title =
          [1059, 1088, 1086, 1074, 1077, 1085, 1100, 32, 1073, 1077, 1079, 1088, 1072, 1073,
           1086, 1090, 1080, 1094, 1099],
        url = asc ''https://www.investing.com/economic-calendar/unemployment-rate-300'',
        rule = Callable rule_long_if_actual_gt_forecast\<rparr>),
      (asc ''JOBLESS_CLAIMS'',
       \<lparr>title =
          [1055, 1077, 1088, 1074, 1080, 1095, 1085, 1099, 1077, 32, 1079, 1072, 1103, 1074,
           1082, 1080, 32, 1085, 1072, 32, 1087, 1086, 1089, 1086, 1073, 1080, 1077, 32, 1087,
           1086, 32, 1073, 1077, 1079, 1088, 1072, 1073, 1086, 1090, 1080, 1094, 1077],
        url = asc ''https://www.investing.com/economic-calendar/initial-jobless-claims-294'',
        rule = Callable rule_long_if_actual_gt_forecast\<rparr>),
      (asc ''CRUDE_OIL_INV'',
       \<lparr>title =
          [1047, 1072, 1087, 1072, 1089, 1099, 32, 1089, 1099, 1088, 1086, 1081, 32, 1085,
           1077, 1092, 1090, 1080, 32, 40, 69, 73, 65, 41],
        url = asc ''https://www.investing.com/economic-calendar/eia-crude-oil-inventories-75'',
        rule = Callable rule_long_if_actual_gt_forecast\<rparr>),
      (asc ''ISM_MANUFACTURING_PMI'',
       \<lparr>title =
          [1048, 1085, 1076, 1077, 1082, 1089, 32, 1076, 1077, 1083, 1086, 1074, 1086, 1081,
           32, 1072, 1082, 1090, 1080, 1074, 1085, 1086, 1089, 1090, 1080, 32, 1074, 32, 1087,
           1088, 1086, 1080, 1079, 1074, 1086, 1076, 1089, 1090, 1074, 1077, 1085, 1085, 1086,
           1084, 32, 1089, 1077, 1082, 1090, 1086, 1088, 1077, 32, 40, 73, 83, 77, 32, 77, 97,
           110, 117, 102, 97, 99, 116, 117, 114, 105, 110, 103, 32, 80, 77, 73, 41],
        url = asc ''https://ru.investing.com/economic-calendar/ism-manufacturing-pmi-173'',
        rule = Callable rule_short_if_actual_gt_forecast\<rparr>),
      (asc ''FOMC_RATE'',
       \<lparr>title =
          [1056, 1077, 1096, 1077, 1085, 1080, 1077, 32, 1087, 1086, 32, 1087, 1088, 1086,
           1094, 1077, 1085, 1090, 1085, 1086, 1081, 32, 1089, 1090, 1072, 1074, 1082, 1077,
           32, 1060, 1056, 1057, 32, 1057, 1064, 1040],
        url = asc ''https://ru.investing.com/economic-calendar/interest-rate-decision-168'',
        rule = Callable rule_fomc_rate\<rparr>)]"

text \<open>
  A row of the table \<open>custom_indicators\<close> as \<open>list_custom_indicators\<close> returns it
  (storage.py, lines 75 to 87). The column \<open>rule\<close> is a text that the database lets be NULL.
\<close>

record custom_indicator =
  c_key :: pystr
  c_title :: pystr
  c_url :: pystr
  c_rule :: "pystr option"

text \<open>
  \<open>get_indicators\<close> (lines 121 to 131), with the custom rows of the chat as its argument:
  the presets, then one entry per custom row. The rule of a custom row is looked up in
  \<open>_RULES\<close> by its upper-cased code, with \<open>_rule_long_if_actual_lt_forecast\<close> as the default
  of \<open>dict.get\<close>.
\<close>

definition custom_rule :: "custom_indicator \<Rightarrow> row \<Rightarrow> pystr" where
  "custom_rule ci =
     (case map_of RULES (upper (case c_rule ci of None \<Rightarrow> [] | Some r \<Rightarrow> r)) of
        Some f \<Rightarrow> f
      | None \<Rightarrow> rule_long_if_actual_lt_forecast)"

definition get_indicators :: "custom_indicator list \<Rightarrow> (pystr \<rightharpoonup> indicator)" where
  "get_indicators customs =
     foldl (\<lambda>result ci.
              result(c_key ci \<mapsto> \<lparr>title = c_title ci, url = c_url ci, rule = Callable (custom_rule ci)\<rparr>))
       (map_of PRESET_INDICATORS) customs"

section \<open>Signal evaluation (bot.py)\<close>

text \<open>The labels of \<open>_signal_from_rows\<close>, lines 282 to 313.\<close>

definition sig_fomc_wait :: pystr where
  "sig_fomc_wait =
     [9203, 32, 1046, 1076, 1105, 1084, 32, 1094, 1080, 1092, 1088, 1099, 32, 1087, 1086, 32,
      1089, 1090, 1072, 1074, 1082, 1077, 46]"

definition sig_fomc_hike :: pystr where
  "sig_fomc_hike =
     [1055, 1086, 1074, 1099, 1096, 1077, 1085, 1080, 1077, 32, 1089, 1090, 1072, 1074, 1082,
      1080]"

definition sig_fomc_cut :: pystr where
  "sig_fomc_cut =
     [1057, 1085, 1080, 1078, 1077, 1085, 1080, 1077, 32, 1089, 1090, 1072, 1074, 1082, 1080]"

definition sig_fomc_same :: pystr where
  "sig_fomc_same =
     [1041, 1077, 1079, 32, 1080, 1079, 1084, 1077, 1085, 1077, 1085, 1080, 1081]"

definition sig_wait :: pystr where
  "sig_wait =
     [1046, 1076, 1105, 1084, 32, 1092, 1072, 1082, 1090, 47, 1087, 1088, 1086, 1075, 1085,
      1086, 1079]"

definition sig_lt_better :: pystr where
  "sig_lt_better =
     [1051, 1091, 1095, 1096, 1077, 32, 1087, 1088, 1086, 1075, 1085, 1086, 1079, 1072, 32, 40,
      1084, 1077, 1085, 1100, 1096, 1077, 32, 8212, 32, 1083, 1091, 1095, 1096, 1077, 41]"

definition sig_lt_worse :: pystr where
  "sig_lt_worse =
     [1061, 1091, 1078, 1077, 32, 1087, 1088, 1086, 1075, 1085, 1086, 1079, 1072, 32, 40, 1084,
      1077, 1085, 1100, 1096, 1077, 32, 8212, 32, 1083, 1091, 1095, 1096, 1077, 41]"

definition sig_on_forecast :: pystr where
  "sig_on_forecast =
     [1053, 1072, 32, 1091, 1088, 1086, 1074, 1085, 1077, 32, 1087, 1088, 1086, 1075, 1085,
      1086, 1079, 1072]"

definition sig_gt_better :: pystr where
  "sig_gt_better =
     [1051, 1091, 1095, 1096, 1077, 32, 1087, 1088, 1086, 1075, 1085, 1086, 1079, 1072, 32, 40,
      1073, 1086, 1083, 1100, 1096, 1077, 32, 8212, 32, 1083, 1091, 1095, 1096, 1077, 41]"

definition sig_gt_worse :: pystr where
  "sig_gt_worse =
     [1061, 1091, 1078, 1077, 32, 1087, 1088, 1086, 1075, 1085, 1086, 1079, 1072, 32, 40, 1073,
      1086, 1083, 1100, 1096, 1077, 32, 8212, 32, 1083, 1091, 1095, 1096, 1077, 41]"

definition sig_rule_unset :: pystr where
  "sig_rule_unset =
     [1055, 1088, 1072, 1074, 1080, 1083, 1086, 32, 1085, 1077, 32, 1079, 1072, 1076, 1072,
      1085, 1086]"

text \<open>The label of line 311 for a code \<open>r\<close>.\<close>

definition sig_unrecognized :: "pystr \<Rightarrow> pystr" where
  "sig_unrecognized r =
     [1055, 1088, 1072, 1074, 1080, 1083, 1086, 32] @ r @
     [32, 1085, 1077, 32, 1088, 1072, 1089, 1087, 1086, 1079, 1085, 1072, 1085, 1086]"

text \<open>
  The value of \<open>sig\<close> after the \<open>try\<close> block (lines 273 to 316), for the rule of the
  indicator and the first row. The rule functions of indicators.py raise nothing, so the
  \<open>except\<close> branch is not taken for them. \<open>float(x)\<close> of line 260 leaves a number as it is
  and turns \<open>None\<close> into \<open>None\<close>.
\<close>

definition rule_sig :: "rule \<Rightarrow> row \<Rightarrow> pystr" where
  "rule_sig rl top_row =
     (let a = actual_val top_row; f = forecast_val top_row; p = previous_val top_row in
      case rl of
        Callable g \<Rightarrow> g top_row
      | RuleStr code \<Rightarrow>
          (let r = upper code in
           if r = asc ''FOMC'' then
             (case (a, p) of
                (Some x, Some y) \<Rightarrow>
                  if x > y then sig_fomc_hike else if x < y then sig_fomc_cut else sig_fomc_same
              | _ \<Rightarrow> sig_fomc_wait)
           else if r = asc ''LT'' then
             (case (a, f) of
                (Some x, Some y) \<Rightarrow>
                  if x < y then sig_lt_better else if x > y then sig_lt_worse else sig_on_forecast
              | _ \<Rightarrow> sig_wait)
           else if r = asc ''GT'' then
             (case (a, f) of
                (Some x, Some y) \<Rightarrow>
                  if x > y then sig_gt_better else if x < y then sig_gt_worse else sig_on_forecast
              | _ \<Rightarrow> sig_wait)
           else sig_unrecognized r)
      | RuleNone \<Rightarrow> sig_rule_unset)"

text \<open>\<open>h(x)\<close> (line 58): \<open>html.escape\<close> of the text, quotes included.\<close>

definition h :: "pystr \<Rightarrow> pystr" where
  "h x = concat (map (\<lambda>c. if c = 38 then asc ''&amp;''
                           else if c = 60 then asc ''&lt;''
                           else if c = 62 then asc ''&gt;''
                           else if c = 34 then asc ''&quot;''
                           else if c = 39 then [38, 35, 120, 50, 55, 59]
                           else [c]) x)"

datatype py_exception = KeyError pystr | ValueError pystr | RuntimeError pystr


section \<open>Altseason index (parser\_altseason.py)\<close>

text \<open>
  \<open>_find_numbers_0_100\<close> (lines 35 to 45). The pattern \<open>(?<!\d)(\d{1,3})(?!\d)\<close> matches the
  maximal runs of digits that have at most three digits: inside a longer run every start
  has a digit before it or a digit after the three it takes. \<open>digit_runs\<close> lists the maximal
  runs with the position where each starts.
\<close>

fun digit_runs :: "int \<Rightarrow> pystr \<Rightarrow> pystr \<Rightarrow> (pystr \<times> int) list" where
  "digit_runs pos cur [] = (if cur = [] then [] else [(cur, pos - int (length cur))])"
| "digit_runs pos cur (c # s) =
     (if isdigit c then digit_runs (pos + 1) (cur @ [c]) s
      else (if cur = [] then [] else [(cur, pos - int (length cur))]) @ digit_runs (pos + 1) [] s)"

definition find_numbers_0_100 :: "pystr \<Rightarrow> (int \<times> int) list" where
  "find_numbers_0_100 txt =
     filter (\<lambda>(v, pos). 0 \<le> v \<and> v \<le> 100)
       (map (\<lambda>(run, pos). (digits_val run, pos))
          (filter (\<lambda>(run, pos). length run \<le> 3) (digit_runs 0 [] txt)))"

text \<open>
  The first pattern of \<open>_extract_index_heuristic\<close> (line 57), case-insensitive: the title in
  English or in Russian, its words separated by white space, then at most forty characters
  that are not digits, then one to three digits. The forty are taken greedily and a digit
  must follow them, so no shorter choice matches when the greedy one does not.
\<close>

definition three_words :: "pystr \<Rightarrow> pystr \<Rightarrow> pystr \<Rightarrow> pystr \<Rightarrow> pystr option" where
  "three_words w1 w2 w3 s =
     (case two_words w1 w2 s of
        None \<Rightarrow> None
      | Some r \<Rightarrow> (case ws_plus r of None \<Rightarrow> None | Some r2 \<Rightarrow> ci_prefix w3 r2))"

definition re_title :: "pystr \<Rightarrow> pystr option" where
  "re_title s =
     (case three_words (asc ''Altcoin'') (asc ''Season'') (asc ''Index'') s of
        Some r \<Rightarrow> Some r
      | None \<Rightarrow>
          three_words [1048, 1085, 1076, 1077, 1082, 1089]
            [1089, 1077, 1079, 1086, 1085, 1072]
            [1072, 1083, 1100, 1090, 1082, 1086, 1080, 1085, 1086, 1074] s)"

definition re_index_at :: "pystr \<Rightarrow> int option" where
  "re_index_at s =
     (case re_title s of
        None \<Rightarrow> None
      | Some r \<Rightarrow>
          (let k = length (takeWhile (\<lambda>c. \<not> isdigit c) (take 40 r));
               d = takeWhile isdigit (take 3 (drop k r))
           in if d = [] then None else Some (digits_val d)))"

fun re_index_search :: "pystr \<Rightarrow> int option" where
  "re_index_search [] = None"
| "re_index_search (c # s) =
     (case re_index_at (c # s) of Some v \<Rightarrow> Some v | None \<Rightarrow> re_index_search s)"

text \<open>
  \<open>re.finditer(kw, text, flags=re.I)\<close> for a keyword without special characters: the
  positions of its occurrences, each search starting after the occurrence before.
\<close>

function ci_find_all :: "pystr \<Rightarrow> int \<Rightarrow> pystr \<Rightarrow> int list" where
  "ci_find_all kw pos [] = []"
| "ci_find_all kw pos (c # s) =
     (if ci_prefix kw (c # s) \<noteq> None
      then pos # ci_find_all kw (pos + int (length kw)) (drop (length kw - 1) s)
      else ci_find_all kw (pos + 1) s)"
  by pat_completeness auto
termination
  by (relation "measure (\<lambda>(kw, pos, s). length s)") auto

text \<open>The anchor keywords of line 64.\<close>

definition ANCHORS :: "pystr list" where
  "ANCHORS =
     [[1057, 1077, 1081, 1095, 1072, 1089],
      [1090, 1077, 1082, 1091, 1097],
      asc ''current'',
      asc ''Now'',
      asc ''Altcoin Season Index'',
      [1048, 1085, 1076, 1077, 1082, 1089, 32, 1089, 1077, 1079, 1086, 1085, 1072, 32, 1072, 1083, 1100, 1090, 1082, 1086, 1080, 1085, 1086, 1074]]"

definition msg_no_numbers :: pystr where
  "msg_no_numbers =
     [1053, 1077, 32, 1085, 1072, 1096, 1083, 1080, 32, 1095, 1080, 1089, 1077, 1083, 32, 48,
      8211, 49, 48, 48, 32, 1085, 1072, 32, 1089, 1090, 1088, 1072, 1085, 1080, 1094, 1077]"

text \<open>\<open>min(xs, key=f)\<close> for a list that is not empty: the first element of least key.\<close>

fun min_by :: "('a \<Rightarrow> int) \<Rightarrow> 'a \<Rightarrow> 'a list \<Rightarrow> 'a" where
  "min_by key best [] = best"
| "min_by key best (x # xs) = min_by key (if key x < key best then x else best) xs"

definition py_min_key :: "('a \<Rightarrow> int) \<Rightarrow> 'a list \<Rightarrow> 'a" where
  "py_min_key key xs = min_by key (hd xs) (tl xs)"

text \<open>
  \<open>_extract_index_heuristic\<close> (lines 47 to 84) on the visible text of the page
  (\<open>soup.get_text("\n", strip=True)\<close>): the index, or the \<open>ValueError\<close> of line 70.
\<close>

definition extract_index_heuristic :: "pystr \<Rightarrow> py_exception + int" where
  "extract_index_heuristic txt =
     (let direct = (case re_index_search txt of
                      None \<Rightarrow> None
                    | Some v \<Rightarrow> if 0 \<le> v \<and> v \<le> 100 then Some v else None)
      in case direct of
           Some v \<Rightarrow> Inr v
         | None \<Rightarrow>
             (let anchors = concat (map (\<lambda>kw. ci_find_all kw 0 txt) ANCHORS);
                  nums = find_numbers_0_100 txt
              in if nums = [] then Inl (ValueError msg_no_numbers)
                 else if anchors \<noteq> [] then
                   (let dist = (\<lambda>npos. min_list (map (\<lambda>a. \<bar>npos - a\<bar>) anchors));
                        filtered = filter (\<lambda>(v, pos). v \<notin> {0, 25, 75, 100}) nums;
                        pick = py_min_key (\<lambda>t. dist (snd t)) (if filtered \<noteq> [] then filtered else nums)
                    in Inr (fst pick))
                 else
                   (case find (\<lambda>(v, pos). 30 \<le> v \<and> v \<le> 90 \<and> v \<notin> {25, 75}) nums of
                      Some (v, pos) \<Rightarrow> Inr v
                    | None \<Rightarrow> Inr (fst (hd nums)))))"

section \<open>Altseason statistics (parser\_altseason.py)\<close>

text \<open>\<open>_normalize\<close> (line 133): strip, lower, and every run of white space becomes a space.\<close>

function collapse_ws :: "pystr \<Rightarrow> pystr" where
  "collapse_ws [] = []"
| "collapse_ws (c # s) =
     (if isspace c then 32 # collapse_ws (dropWhile isspace s) else c # collapse_ws s)"
  by pat_completeness auto
termination
  by (relation "measure length") (auto simp: length_dropWhile_le less_Suc_eq_le)

definition normalize :: "pystr \<Rightarrow> pystr" where
  "normalize s = collapse_ws (lower (strip s))"

text \<open>
  \<open>_parse_int\<close> (lines 136 to 145) on a cell text: \<open>int\<close> of the digits and minus signs of the
  text, \<open>None\<close> when that is not a number.
\<close>

definition py_int :: "pystr \<Rightarrow> int option" where
  "py_int t =
     (if t \<noteq> [] \<and> list_all isdigit t then Some (digits_val t)
      else if t \<noteq> [] \<and> hd t = 45 \<and> tl t \<noteq> [] \<and> list_all isdigit (tl t) then Some (- digits_val (tl t))
      else None)"

definition parse_int :: "pystr \<Rightarrow> int option" where
  "parse_int s0 =
     (let s = strip s0
      in if s = [] \<or> lower s \<in> set [asc ''none'', asc ''n/a'', asc ''-'', [8212]] then None
         else py_int (filter (\<lambda>c. isdigit c \<or> c = 45) s))"

text \<open>\<open>_KEYWORDS\<close> and \<open>_LABEL_VARIANTS\<close> (lines 148 to 186), in the order of the source.\<close>

definition KEYWORDS :: "(pystr \<times> pystr list list) list" where
  "KEYWORDS =
     [(asc ''days_since_last'',
       [[asc ''days'', asc ''since'', asc ''last''],
        [[1076, 1085, 1077, 1081], [1087, 1088, 1086, 1096, 1083, 1086, 1075, 1086]]]),
      (asc ''avg_between'',
       [[asc ''average'', asc ''between''],
        [[1089, 1088, 1077, 1076, 1085], [1084, 1077, 1078, 1076, 1091]]]),
      (asc ''longest_without'',
       [[asc ''longest'', asc ''without''],
        [[1089, 1072, 1084, 1072, 1103], [1076, 1083, 1080, 1085], [1073, 1077, 1079]]]),
      (asc ''avg_length'',
       [[asc ''average'', asc ''length''],
        [[1089, 1088, 1077, 1076, 1085], [1076, 1083, 1080, 1090, 1077, 1083, 1100]]]),
      (asc ''longest_length'',
       [[asc ''longest'', asc ''season''],
        [[1089, 1072, 1084, 1099, 1081], [1076, 1083, 1080, 1085], [1089, 1077, 1079, 1086, 1085]]]),
      (asc ''total_days'',
       [[asc ''total'', asc ''number'', asc ''days''],
        [[1086, 1073, 1097, 1077, 1077], [1082, 1086, 1083, 1080, 1095], [1076, 1085, 1077, 1081]]])]"

definition LABEL_VARIANTS :: "(pystr \<times> pystr list) list" where
  "LABEL_VARIANTS =
     [(asc ''days_since_last'',
       [asc ''days since last season'',
        [1076, 1085, 1077, 1081, 32, 1089, 32, 1087, 1088, 1086, 1096, 1083, 1086, 1075, 1086,
         32, 1089, 1077, 1079, 1086, 1085, 1072]]),
      (asc ''avg_between'',
       [asc ''average days between seasons'',
        [1089, 1088, 1077, 1076, 1085, 1077, 1077, 32, 1082, 1086, 1083, 1080, 1095, 1077,
         1089, 1090, 1074, 1086, 32, 1076, 1085, 1077, 1081, 32, 1084, 1077, 1078, 1076, 1091,
         32, 1089, 1077, 1079, 1086, 1085, 1072, 1084, 1080]]),
      (asc ''longest_without'',
       [asc ''longest period without a season'',
        [1089, 1072, 1084, 1072, 1103, 32, 1076, 1083, 1080, 1085, 1085, 1072, 1103, 32, 1089,
         1077, 1088, 1080, 1103, 32, 1073, 1077, 1079, 32, 1089, 1077, 1079, 1086, 1085, 1072]]),
      (asc ''avg_length'',
       [asc ''average season length (days)'',
        asc ''average length of season (days)'',
        [1089, 1088, 1077, 1076, 1085, 1103, 1103, 32, 1087, 1088, 1086, 1076, 1086, 1083,
         1078, 1080, 1090, 1077, 1083, 1100, 1085, 1086, 1089, 1090, 1100, 32, 1089, 1077,
         1079, 1086, 1085, 1072, 32, 40, 1076, 1085, 1077, 1081, 41],
        [1089, 1088, 1077, 1076, 1085, 1103, 1103, 32, 1076, 1083, 1080, 1090, 1077, 1083,
         1100, 1085, 1086, 1089, 1090, 1100, 32, 1089, 1077, 1079, 1086, 1085, 1072, 32, 40,
         1076, 1085, 1077, 1081, 41]]),
      (asc ''longest_length'',
       [asc ''longest season (days)'',
        [1089, 1072, 1084, 1099, 1081, 32, 1076, 1083, 1080, 1085, 1085, 1099, 1081, 32, 1089,
         1077, 1079, 1086, 1085, 32, 40, 1076, 1085, 1080, 41]]),
      (asc ''total_days'',
       [asc ''total number of days in season'',
        asc ''total days of season'',
        [1086, 1073, 1097, 1077, 1077, 32, 1082, 1086, 1083, 1080, 1095, 1077, 1089, 1090,
         1074, 1086, 32, 1076, 1085, 1077, 1081, 32, 1089, 1077, 1079, 1086, 1085, 1072]])]"

text \<open>\<open>_match_key\<close> (lines 188 to 199): the exact variants first, then the keyword bundles.\<close>

definition match_key :: "pystr \<Rightarrow> pystr option" where
  "match_key label_norm =
     (case find (\<lambda>(key, variants). list_ex (\<lambda>v. contains label_norm (normalize v)) variants)
             LABEL_VARIANTS of
        Some (key, variants) \<Rightarrow> Some key
      | None \<Rightarrow>
          (case find (\<lambda>(key, bundles).
                        list_ex (\<lambda>kws. list_all (\<lambda>kw. contains label_norm kw) kws) bundles)
                  KEYWORDS of
             Some (key, bundles) \<Rightarrow> Some key
           | None \<Rightarrow> None))"

text \<open>
  The download and the two searches for the table (lines 213 to 262) are the environment:
  the page could not be loaded (with the text of the last exception), no table of the
  shape was found, or the table was found. A table is the list of its \<open>tr\<close> rows
  (\<open>target_table.find_all("tr")\<close>), each row the texts of its \<open>td\<close> and \<open>th\<close> cells.
\<close>

datatype stats_page = LoadFailed pystr | TableNotFound | TableFound "pystr list list"

type_synonym stats = "pystr \<rightharpoonup> int option \<times> int option"

text \<open>The body of the loop of lines 266 to 276 for one row.\<close>

definition stats_step :: "stats \<Rightarrow> pystr list \<Rightarrow> stats" where
  "stats_step st tds =
     (if length tds \<noteq> 3 then st
      else case match_key (normalize (tds ! 0)) of
             Some key \<Rightarrow> st(key \<mapsto> (parse_int (tds ! 1), parse_int (tds ! 2)))
           | None \<Rightarrow> st)"

text \<open>\<open>sorted(required)\<close> of line 280, and the three messages.\<close>

definition REQUIRED_SORTED :: "pystr list" where
  "REQUIRED_SORTED =
     [asc ''avg_between'',
      asc ''avg_length'',
      asc ''days_since_last'',
      asc ''longest_length'',
      asc ''longest_without'',
      asc ''total_days'']"

definition msg_load_failed :: pystr where
  "msg_load_failed =
     [1053, 1077, 32, 1091, 1076, 1072, 1083, 1086, 1089, 1100, 32, 1079, 1072, 1075, 1088,
      1091, 1079, 1080, 1090, 1100, 32, 1089, 1090, 1088, 1072, 1085, 1080, 1094, 1091, 58, 32]"

definition msg_table_not_found :: pystr where
  "msg_table_not_found =
     [1058, 1072, 1073, 1083, 1080, 1094, 1072, 32, 65, 108, 116, 99, 111, 105, 110, 47, 66,
      105, 116, 99, 111, 105, 110, 32, 1076, 1083, 1103, 32, 1089, 1077, 1082, 1094, 1080,
      1080, 32, 39, 65, 108, 116, 99, 111, 105, 110, 32, 83, 101, 97, 115, 111, 110, 39, 32,
      1085, 1077, 32, 1085, 1072, 1081, 1076, 1077, 1085, 1072]"

definition msg_missing :: pystr where
  "msg_missing =
     [1053, 1077, 32, 1091, 1076, 1072, 1083, 1086, 1089, 1100, 32, 1088, 1072, 1089, 1087,
      1086, 1079, 1085, 1072, 1090, 1100, 32, 1084, 1077, 1090, 1088, 1080, 1082, 1080, 32,
      1090, 1072, 1073, 1083, 1080, 1094, 1099, 58, 32]"

text \<open>\<open>fetch_altseason_stats\<close> (lines 201 to 284): the statistics or the \<open>RuntimeError\<close>.\<close>

definition fetch_altseason_stats :: "stats_page \<Rightarrow> py_exception + stats" where
  "fetch_altseason_stats page =
     (case page of
        LoadFailed last_err \<Rightarrow> Inl (RuntimeError (msg_load_failed @ last_err))
      | TableNotFound \<Rightarrow> Inl (RuntimeError msg_table_not_found)
      | TableFound trs \<Rightarrow>
          (let st = foldl stats_step Map.empty (drop 1 trs);
               missing = filter (\<lambda>k. st k = None) REQUIRED_SORTED
           in if missing \<noteq> [] then Inl (RuntimeError (msg_missing @ join (asc '', '') missing))
              else Inr st))"

text \<open>
  A key is matched in a table when some row after the first has exactly three cells and
  \<open>_match_key\<close> gives that key for its normalised label. These are the rows whose label the
  loop of \<open>fetch_altseason_stats\<close> looks at.
\<close>

definition row_matches :: "pystr list list \<Rightarrow> pystr \<Rightarrow> bool" where
  "row_matches trs k =
     list_ex (\<lambda>tds. length tds = 3 \<and> match_key (normalize (tds ! 0)) = Some k) (drop 1 trs)"

section \<open>Example inputs\<close>

text \<open>Three tables: one without a header, then two whose headers both score ten.\<close>

definition ex_tb1 :: table where
  "ex_tb1 = \<lparr>thead_th = [], tbody_tr = []\<rparr>"

definition ex_tb2 :: table where
  "ex_tb2 = \<lparr>thead_th = [asc ''Actual'', asc ''Forecast''], tbody_tr = []\<rparr>"

definition ex_tb3 :: table where
  "ex_tb3 = \<lparr>thead_th = [asc ''Forecast'', asc ''Prior''], tbody_tr = []\<rparr>"

text \<open>
  A page whose first attempt is refused by cloudscraper (HTTP 403) and served by requests,
  with one table of two rows, the second too short; and a network that always fails.
\<close>

definition ex_table :: table where
  "ex_table =
     \<lparr>thead_th = [asc ''Release Date'', asc ''Time'', asc ''Actual'', asc ''Forecast'', asc ''Previous''],
      tbody_tr = [[asc ''Oct 10, 2025'', asc ''08:30'', asc ''218K'', asc ''225K'', asc ''219K''],
                  [asc ''Oct 03, 2025'', asc ''08:30'']]\<rparr>"

definition ex_env :: env where
  "ex_env =
     \<lparr>net_get = (\<lambda>url n. \<lparr>via_cloudscraper = Resp 403 (asc ''denied''),
                           via_requests = Resp 200 (asc ''<html>'')\<rparr>),
      html_parse = (\<lambda>html. Inr [ex_table]),
      to_iso = (\<lambda>d t. None),
      repr_diag = (\<lambda>d. asc ''{}'')\<rparr>"

definition ex_env_down :: env where
  "ex_env_down =
     \<lparr>net_get = (\<lambda>url n. \<lparr>via_cloudscraper = Raised (asc ''timeout''),
                           via_requests = Resp 503 []\<rparr>),
      html_parse = (\<lambda>html. Inr [ex_table]),
      to_iso = (\<lambda>d t. None),
      repr_diag = (\<lambda>d. asc ''{}'')\<rparr>"

text \<open>
  A row with the three values given and nothing else, and a custom indicator stored with
  the rule code XYZ.
\<close>

definition row_of :: "pyfloat option \<Rightarrow> pyfloat option \<Rightarrow> pyfloat option \<Rightarrow> row" where
  "row_of a f p =
     \<lparr>date = [], time = [], actual = [], forecast = [], previous = [],
      actual_val = a, actual_unit = None, forecast_val = f, forecast_unit = None,
      previous_val = p, previous_unit = None,
      revised_from_val = None, revised_from_unit = None, release_dt_iso = None\<rparr>"


text \<open>A custom indicator stored with the rule code LT.\<close>

definition ex_custom_lt :: custom_indicator where
  "ex_custom_lt =
     \<lparr>c_key = asc ''CUSTOM_0A1B2C3D4E'', c_title = asc ''Claims'',
      c_url = asc ''https://www.investing.com/economic-calendar/y-2'', c_rule = Some (asc ''LT'')\<rparr>"

text \<open>
  Four page texts, one for each way \<open>_extract_index_heuristic\<close> finds the index, and two
  statistics tables: one complete, one without a row for the total number of days.
\<close>

definition ex_text_direct :: pystr where
  "ex_text_direct = asc ''Altcoin Season Index: 55''"

definition ex_text_anchor :: pystr where
  "ex_text_anchor = asc ''75 Now 42''"

definition ex_text_range :: pystr where
  "ex_text_range = asc ''7 and 64''"

definition ex_text_first :: pystr where
  "ex_text_first = asc ''7 and 12''"

definition ex_stats_rows :: "pystr list list" where
  "ex_stats_rows =
     [[asc '''', asc ''Altcoin'', asc ''Bitcoin''],
      [asc ''Days since last season'', asc ''259'', asc ''47''],
      [asc ''Average days between seasons'', asc ''66'', asc ''17''],
      [asc ''Longest period without a season'', asc ''486'', asc ''191''],
      [asc ''Average season length (days)'', asc ''18'', asc ''10''],
      [asc ''Longest season (days)'', asc ''117'', asc ''126'']]"

definition ex_stats_full :: "pystr list list" where
  "ex_stats_full = ex_stats_rows @ [[asc ''Total number of days in season'', asc ''404'', asc ''953'']]"

section \<open>Properties\<close>

lemma labels_distinct:
  "label_btc_season \<noteq> label_altseason" "label_btc_season \<noteq> label_close"
  "label_btc_season \<noteq> label_neutral" "label_altseason \<noteq> label_close"
  "label_altseason \<noteq> label_neutral" "label_close \<noteq> label_neutral"
  by (simp_all add: label_btc_season_def label_altseason_def label_close_def label_neutral_def)

text \<open>
  Claim C8. For every integer index value, \<open>classify_altseason\<close> returns the Bitcoin-season
  label exactly when the value is at most 25, the neutral label exactly when it lies in
  26..68, the approaching-altseason label exactly when it lies in 69..74, and the altseason
  label exactly when it is at least 75.
\<close>

theorem classify_altseason_bands:
  "(fst (classify_altseason v) = label_btc_season \<longleftrightarrow> v \<le> 25) \<and>
   (fst (classify_altseason v) = label_neutral \<longleftrightarrow> 26 \<le> v \<and> v \<le> 68) \<and>
   (fst (classify_altseason v) = label_close \<longleftrightarrow> 69 \<le> v \<and> v \<le> 74) \<and>
   (fst (classify_altseason v) = label_altseason \<longleftrightarrow> v \<ge> 75)"
  using labels_distinct by (auto simp: classify_altseason_def)

theorem classify_altseason_bands_witness:
  "fst (classify_altseason 25) = label_btc_season \<and>
   fst (classify_altseason 26) = label_neutral \<and>
   fst (classify_altseason 68) = label_neutral \<and>
   fst (classify_altseason 69) = label_close \<and>
   fst (classify_altseason 74) = label_close \<and>
   fst (classify_altseason 75) = label_altseason"
  using classify_altseason_bands [of 25] classify_altseason_bands [of 26]
    classify_altseason_bands [of 68] classify_altseason_bands [of 69]
    classify_altseason_bands [of 74] classify_altseason_bands [of 75]
  by simp

subsection \<open>The table locator\<close>

lemma best_loop_inv:
  "best_loop (bi, bh, bs) i tbs = (ri, rh, rs) \<Longrightarrow>
     ((ri, rh, rs) = (bi, bh, bs) \<and> (\<forall>j<length tbs. head_score (tbs ! j) \<le> bs)) \<or>
     (\<exists>k<length tbs. ri = Some (i + k) \<and> rh = heads_of (tbs ! k) \<and> rs = head_score (tbs ! k) \<and>
        bs < rs \<and> (\<forall>j<k. head_score (tbs ! j) < rs) \<and>
        (\<forall>j<length tbs. head_score (tbs ! j) \<le> rs))"
proof (induction tbs arbitrary: bi bh bs i)
  case Nil
  then show ?case by simp
next
  case (Cons tb tbs)
  show ?case
  proof (cases "head_score tb > bs")
    case True
    with Cons.prems have run: "best_loop (Some i, heads_of tb, head_score tb) (Suc i) tbs = (ri, rh, rs)"
      by simp
    from Cons.IH [OF run] show ?thesis
    proof
      assume keep: "(ri, rh, rs) = (Some i, heads_of tb, head_score tb) \<and>
        (\<forall>j<length tbs. head_score (tbs ! j) \<le> head_score tb)"
      have "\<forall>j<length (tb # tbs). head_score ((tb # tbs) ! j) \<le> rs"
        using keep by (auto simp: nth_Cons split: nat.splits)
      with keep True show ?thesis
        by (intro disjI2 exI [of _ 0]) auto
    next
      assume "\<exists>k<length tbs. ri = Some (Suc i + k) \<and> rh = heads_of (tbs ! k) \<and>
        rs = head_score (tbs ! k) \<and> head_score tb < rs \<and> (\<forall>j<k. head_score (tbs ! j) < rs) \<and>
        (\<forall>j<length tbs. head_score (tbs ! j) \<le> rs)"
      then obtain k where k: "k < length tbs" "ri = Some (Suc i + k)" "rh = heads_of (tbs ! k)"
        "rs = head_score (tbs ! k)" "head_score tb < rs" "\<forall>j<k. head_score (tbs ! j) < rs"
        "\<forall>j<length tbs. head_score (tbs ! j) \<le> rs" by blast
      have a: "\<forall>j<Suc k. head_score ((tb # tbs) ! j) < rs"
        using k(5,6) by (auto simp: nth_Cons split: nat.splits)
      have b: "\<forall>j<length (tb # tbs). head_score ((tb # tbs) ! j) \<le> rs"
        using k(5,7) by (auto simp: nth_Cons split: nat.splits)
      from k True a b show ?thesis
        by (intro disjI2 exI [of _ "Suc k"]) auto
    qed
  next
    case False
    with Cons.prems have run: "best_loop (bi, bh, bs) (Suc i) tbs = (ri, rh, rs)"
      by simp
    from Cons.IH [OF run] show ?thesis
    proof
      assume keep: "(ri, rh, rs) = (bi, bh, bs) \<and> (\<forall>j<length tbs. head_score (tbs ! j) \<le> bs)"
      have "\<forall>j<length (tb # tbs). head_score ((tb # tbs) ! j) \<le> bs"
        using keep False by (auto simp: nth_Cons split: nat.splits)
      with keep show ?thesis by blast
    next
      assume "\<exists>k<length tbs. ri = Some (Suc i + k) \<and> rh = heads_of (tbs ! k) \<and>
        rs = head_score (tbs ! k) \<and> bs < rs \<and> (\<forall>j<k. head_score (tbs ! j) < rs) \<and>
        (\<forall>j<length tbs. head_score (tbs ! j) \<le> rs)"
      then obtain k where k: "k < length tbs" "ri = Some (Suc i + k)" "rh = heads_of (tbs ! k)"
        "rs = head_score (tbs ! k)" "bs < rs" "\<forall>j<k. head_score (tbs ! j) < rs"
        "\<forall>j<length tbs. head_score (tbs ! j) \<le> rs" by blast
      have a: "\<forall>j<Suc k. head_score ((tb # tbs) ! j) < rs"
        using k(5,6) False by (auto simp: nth_Cons split: nat.splits)
      have b: "\<forall>j<length (tb # tbs). head_score ((tb # tbs) ! j) \<le> rs"
        using k(5,7) False by (auto simp: nth_Cons split: nat.splits)
      from k a b show ?thesis
        by (intro disjI2 exI [of _ "Suc k"]) auto
    qed
  qed
qed

lemma rows_loop_range: "rows_loop i tbs = Some k \<Longrightarrow> i \<le> k \<and> k < i + length tbs"
proof (induction tbs arbitrary: i)
  case Nil
  then show ?case by simp
next
  case (Cons tb tbs)
  show ?case
  proof (cases "list_ex (\<lambda>tr. row_shape_ok (map lower tr)) (take 3 (tbody_tr tb))")
    case True
    with Cons.prems show ?thesis by simp
  next
    case False
    with Cons.prems have "rows_loop (Suc i) tbs = Some k" by simp
    from Cons.IH [OF this] show ?thesis by simp
  qed
qed

lemma head_score_nonneg: "0 \<le> head_score tb"
  by (simp add: head_score_def score_heads_def Let_def)

text \<open>
  Claim C7. For every document with at least one table, \<open>_pick_target_table\<close> returns a
  table of the document (with its lower-cased heads); and whenever some table's header row
  scores above zero, the table returned has the greatest header score and every table
  before it in document order has a strictly smaller score, so it is the earliest table
  with the maximal score.
\<close>

theorem pick_target_table_picks:
  assumes "tables \<noteq> []"
  shows "\<exists>i hs. fst (pick_target_table tables) = Some (i, hs) \<and> i < length tables \<and>
           hs = heads_of (tables ! i) \<and>
           ((\<exists>j<length tables. 0 < head_score (tables ! j)) \<longrightarrow>
              (\<forall>j<length tables. head_score (tables ! j) \<le> head_score (tables ! i)) \<and>
              (\<forall>j<i. head_score (tables ! j) < head_score (tables ! i)))"
proof -
  obtain ri rh rs where best: "best_loop (None, [], -1) 0 tables = (ri, rh, rs)"
    by (metis prod_cases3)
  have len: "0 < length tables" using assms by simp
  from best_loop_inv [OF best] have
    "\<exists>k<length tables. ri = Some k \<and> rh = heads_of (tables ! k) \<and> rs = head_score (tables ! k) \<and>
       (\<forall>j<k. head_score (tables ! j) < rs) \<and> (\<forall>j<length tables. head_score (tables ! j) \<le> rs)"
  proof
    assume "(ri, rh, rs) = (None, [], -1) \<and> (\<forall>j<length tables. head_score (tables ! j) \<le> -1)"
    then have "head_score (tables ! 0) \<le> -1" using len by blast
    with head_score_nonneg [of "tables ! 0"] show ?thesis by simp
  next
    assume "\<exists>k<length tables. ri = Some (0 + k) \<and> rh = heads_of (tables ! k) \<and>
      rs = head_score (tables ! k) \<and> -1 < rs \<and> (\<forall>j<k. head_score (tables ! j) < rs) \<and>
      (\<forall>j<length tables. head_score (tables ! j) \<le> rs)"
    then show ?thesis by auto
  qed
  then obtain k where k: "k < length tables" "ri = Some k" "rh = heads_of (tables ! k)"
    "rs = head_score (tables ! k)" "\<forall>j<k. head_score (tables ! j) < rs"
    "\<forall>j<length tables. head_score (tables ! j) \<le> rs" by blast
  show ?thesis
  proof (cases "0 < rs")
    case True
    then have "fst (pick_target_table tables) = Some (k, rh)"
      using assms best k(2) by (simp add: pick_target_table_def Let_def)
    with k show ?thesis by auto
  next
    case False
    then have none: "\<not> (\<exists>j<length tables. 0 < head_score (tables ! j))"
      using k(6) by fastforce
    show ?thesis
    proof (cases "rows_loop 0 tables")
      case None
      then have "fst (pick_target_table tables) = Some (length tables - 1, heads_of (last tables))"
        using assms best k(2) False by (simp add: pick_target_table_def Let_def)
      moreover have "last tables = tables ! (length tables - 1)"
        using assms by (simp add: last_conv_nth)
      ultimately show ?thesis using none len by auto
    next
      case (Some i)
      then have "fst (pick_target_table tables) = Some (i, heads_of (tables ! i))"
        using assms best k(2) False by (simp add: pick_target_table_def Let_def)
      moreover have "i < length tables" using rows_loop_range [OF Some] by simp
      ultimately show ?thesis using none by auto
    qed
  qed
qed

theorem pick_target_table_picks_witness:
  "[ex_tb1, ex_tb2, ex_tb3] \<noteq> [] \<and> 0 < head_score ([ex_tb1, ex_tb2, ex_tb3] ! 1) \<and>
   fst (pick_target_table [ex_tb1, ex_tb2, ex_tb3]) = Some (1, [asc ''actual'', asc ''forecast'']) \<and>
   head_score ex_tb1 < head_score ex_tb2 \<and> head_score ex_tb3 \<le> head_score ex_tb2"
proof -
  let ?W = "[ex_tb1, ex_tb2, ex_tb3]"
  have ne: "?W \<noteq> []" by simp
  have s2: "head_score ex_tb2 = 10" by code_simp
  have pos: "\<exists>j<length ?W. 0 < head_score (?W ! j)"
    using s2 by (intro exI [of _ 1]) simp
  have ev: "fst (pick_target_table ?W) = Some (1, [asc ''actual'', asc ''forecast''])"
    by code_simp
  from pick_target_table_picks [OF ne] obtain i hs where
    r: "fst (pick_target_table ?W) = Some (i, hs)" and
    m: "(\<exists>j<length ?W. 0 < head_score (?W ! j)) \<longrightarrow>
          (\<forall>j<length ?W. head_score (?W ! j) \<le> head_score (?W ! i)) \<and>
          (\<forall>j<i. head_score (?W ! j) < head_score (?W ! i))"
    by blast
  from r ev have i: "i = 1" by simp
  from m pos i have le: "\<forall>j<length ?W. head_score (?W ! j) \<le> head_score (?W ! 1)"
    and lt: "\<forall>j<1. head_score (?W ! j) < head_score (?W ! 1)" by simp_all
  have "(2::nat) < length ?W" by simp
  with le have "head_score (?W ! 2) \<le> head_score (?W ! 1)" by blast
  moreover have "(0::nat) < 1" by simp
  with lt have "head_score (?W ! 0) < head_score (?W ! 1)" by blast
  ultimately show ?thesis using ev s2 by simp
qed

subsection \<open>The fetch pipeline\<close>

lemma get_attempts_shape:
  "get_attempts net ns le nts = (code, html, err, nt) \<Longrightarrow>
     (code = 200 \<and> (\<exists>b. html = Some b \<and> b \<noteq> [])) \<or>
     (code = 0 \<and> html = None \<and>
        (\<exists>x. err = Some x \<and> x \<noteq> [] \<and>
           (startswith x (asc ''[NET]'') \<or> (ns = [] \<and> le = Some x))))"
proof (induction ns arbitrary: le nts)
  case Nil
  then show ?case
    by (cases le) (auto simp: asc_def)
next
  case (Cons n ns)
  show ?case
  proof (cases "client_step (asc ''cloudscraper'') (via_cloudscraper (net n)) n nts")
    case (Inl a)
    then show ?thesis using Cons.prems
      by (cases a) (auto simp: client_step_def Let_def split: http.splits if_splits)
  next
    case (Inr b)
    obtain le1 notes1 where b: "b = (le1, notes1)" by (cases b)
    show ?thesis
    proof (cases "client_step (asc ''requests'') (via_requests (net n)) n notes1")
      case (Inl a)
      then show ?thesis using Cons.prems Inr b
        by (cases a) (auto simp: client_step_def Let_def split: http.splits if_splits)
    next
      case Inr2: (Inr c)
      obtain le2 notes2 where c: "c = (le2, notes2)" by (cases c)
      have tag: "startswith le2 (asc ''[NET]'') \<and> le2 \<noteq> []"
        using Inr2 c
        by (auto simp: client_step_def Let_def asc_def split: http.splits if_splits)
      have run: "get_attempts net ns (Some le2) notes2 = (code, html, err, nt)"
        using Cons.prems Inr b Inr2 c by simp
      from Cons.IH [OF run] tag show ?thesis by auto
    qed
  qed
qed


lemma startswith_prefix_append: "startswith x p \<Longrightarrow> startswith (x @ r) p"
  by (induction x p rule: startswith.induct) auto

lemma get_shape:
  "get net = (code, html, err, nt) \<Longrightarrow>
     (code = 200 \<and> (\<exists>b. html = Some b \<and> b \<noteq> [])) \<or>
     (code = 0 \<and> html = None \<and> (\<exists>x. err = Some x \<and> x \<noteq> [] \<and> startswith x (asc ''[NET]'')))"
  unfolding get_def by (drule get_attempts_shape) auto

lemma stage_tagged_net: "startswith x (asc ''[NET]'') \<Longrightarrow> stage_tagged (x @ r)"
  by (simp add: stage_tagged_def startswith_prefix_append)

lemma stage_tagged_html: "stage_tagged (asc ''[HTML] soup fail: '' @ msg)"
  by (simp add: stage_tagged_def asc_def)

lemma stage_tagged_table: "stage_tagged (asc ''[TABLE] not found | diag: '' @ r)"
  by (simp add: stage_tagged_def asc_def)

lemma stage_tagged_row: "stage_tagged (asc ''[ROW] no rows parsed | diag: '' @ r)"
  by (simp add: stage_tagged_def asc_def)

lemma slice_to_nonempty:
  "1 \<le> limit \<Longrightarrow> rows \<noteq> [] \<Longrightarrow> slice_to limit rows \<noteq> [] \<and> int (length (slice_to limit rows)) \<le> limit"
  by (cases rows) (auto simp: slice_to_def)

lemma fetch_table_rows_example:
  "snd (fetch_table_rows ex_env (asc ''u'') 1) = None \<and>
   length (fst (fetch_table_rows ex_env (asc ''u'') 1)) = 1"
proof -
  have hs: "head_score ex_table = 15" by code_simp
  have pk: "fst (pick_target_table [ex_table]) = Some (0, heads_of ex_table)"
    using hs by (simp add: pick_target_table_def Let_def)
  obtain d where pt: "pick_target_table [ex_table] = (Some (0, heads_of ex_table), d)"
    using pk by (cases "pick_target_table [ex_table]") auto
  have trs: "filter (\<lambda>tds. \<not> length tds < 5) (tbody_tr ex_table) = [hd (tbody_tr ex_table)]"
    by (simp add: ex_table_def)
  have ne: "asc ''<html>'' \<noteq> []" by (simp add: asc_def)
  show ?thesis
    using pt trs ne
    by (simp add: fetch_table_rows_def get_def client_step_def ex_env_def Let_def slice_to_def)
qed

text \<open>
  Claim C6. For every URL (every behaviour of the network and of the parser) and every
  row limit of at least one, \<open>fetch_table_rows\<close> returns either a list of rows that is not
  empty, has at most \<open>limit\<close> rows and comes with no error, or the empty list with an error
  text that begins with one of the stage tags [NET], [HTML], [TABLE], [ROW]. The exceptions
  of the two HTTP clients and of the parser are values of the environment, and each is
  turned into such an error: the function returns in every case.
\<close>

theorem fetch_table_rows_shape:
  assumes "1 \<le> limit"
  shows "\<exists>rows err. fetch_table_rows e u limit = (rows, err) \<and>
           ((rows \<noteq> [] \<and> int (length rows) \<le> limit \<and> err = None) \<or>
            (rows = [] \<and> (\<exists>x. err = Some x \<and> stage_tagged x)))"
proof -
  obtain code html net_err net_note where g: "get (net_get e u) = (code, html, net_err, net_note)"
    by (metis prod_cases4)
  from get_shape [OF g] show ?thesis
  proof
    assume "code = 0 \<and> html = None \<and> (\<exists>x. net_err = Some x \<and> x \<noteq> [] \<and> startswith x (asc ''[NET]''))"
    then obtain x where x: "code = 0" "html = None" "net_err = Some x" "x \<noteq> []"
      "startswith x (asc ''[NET]'')" by blast
    have "fetch_table_rows e u limit = ([], Some (x @ asc '' | note: '' @ net_note))"
      using g x by (simp add: fetch_table_rows_def)
    with stage_tagged_net [OF x(5)] show ?thesis by simp
  next
    assume "code = 200 \<and> (\<exists>b. html = Some b \<and> b \<noteq> [])"
    then obtain b where b: "code = 200" "html = Some b" "b \<noteq> []" by blast
    show ?thesis
    proof (cases "html_parse e b")
      case (Inl msg)
      then have "fetch_table_rows e u limit = ([], Some (asc ''[HTML] soup fail: '' @ msg))"
        using g b by (simp add: fetch_table_rows_def)
      with stage_tagged_html show ?thesis by simp
    next
      case (Inr tables)
      obtain pk d where pt: "pick_target_table tables = (pk, d)" by (cases "pick_target_table tables")
      show ?thesis
      proof (cases pk)
        case None
        then have "fetch_table_rows e u limit =
            ([], Some (asc ''[TABLE] not found | diag: '' @ repr_diag e d))"
          using g b Inr pt by (simp add: fetch_table_rows_def)
        with stage_tagged_table show ?thesis by simp
      next
        case (Some th)
        obtain t heads where th: "th = (t, heads)" by (cases th)
        let ?ia = "idx_for heads HEAD_ACTUAL_KEYS (-3)"
        let ?if = "idx_for heads HEAD_FORECAST_KEYS (-2)"
        let ?ip = "idx_for heads HEAD_PREV_KEYS (-1)"
        let ?trs = "tbody_tr (tables ! t)"
        let ?rows = "map (mk_row e ?ia ?if ?ip) (filter (\<lambda>tds. \<not> length tds < 5) ?trs)"
        show ?thesis
        proof (cases "?rows = []")
          case True
          then have "\<exists>r. fetch_table_rows e u limit =
              ([], Some (asc ''[ROW] no rows parsed | diag: '' @ r))"
            using g b Inr pt Some th by (simp add: fetch_table_rows_def Let_def)
          with stage_tagged_row show ?thesis by auto
        next
          case False
          then have "fetch_table_rows e u limit = (slice_to limit ?rows, None)"
            using g b Inr pt Some th by (simp add: fetch_table_rows_def Let_def)
          with slice_to_nonempty [OF assms False] show ?thesis by simp
        qed
      qed
    qed
  qed
qed

theorem fetch_table_rows_shape_witness:
  "1 \<le> (1::int) \<and> fst (fetch_table_rows ex_env_down (asc ''u'') 1) = [] \<and>
   (\<exists>x. snd (fetch_table_rows ex_env_down (asc ''u'') 1) = Some x \<and> stage_tagged x) \<and>
   snd (fetch_table_rows ex_env (asc ''u'') 1) = None \<and>
   length (fst (fetch_table_rows ex_env (asc ''u'') 1)) = 1"
proof -
  note ok = fetch_table_rows_example
  have one: "1 \<le> (1::int)" by simp
  have ev: "fst (fetch_table_rows ex_env_down (asc ''u'') 1) = []"
    by (simp add: fetch_table_rows_def get_def client_step_def ex_env_down_def Let_def)
  from fetch_table_rows_shape [OF one, of ex_env_down "asc ''u''"] ev one ok show ?thesis
    by auto
qed

subsection \<open>The signal evaluator\<close>

lemma preset_fomc_rate:
  "map_of PRESET_INDICATORS (asc ''FOMC_RATE'') =
     Some \<lparr>title = [1056, 1077, 1096, 1077, 1085, 1080, 1077, 32, 1087, 1086, 32, 1087, 1088, 1086, 1094, 1077, 1085, 1090, 1085, 1086, 1081, 32, 1089, 1090, 1072, 1074, 1082, 1077, 32, 1060, 1056, 1057, 32, 1057, 1064, 1040],
            url = asc ''https://ru.investing.com/economic-calendar/interest-rate-decision-168'',
            rule = Callable rule_fomc_rate\<rparr>"
  by (simp add: PRESET_INDICATORS_def asc_def)

text \<open>
  Claim C1 says that the FOMC rate rule compares the actual value of a row with its previous
  value, never with the forecast, also for the preset FOMC\_RATE. The rule that
  \<open>get_indicators\<close> holds for FOMC\_RATE is the function \<open>_rule_fomc_rate\<close>, which reads the
  forecast: for actual 5.5, previous 5.25 and no forecast the label is NEUTRAL, and with
  forecast 6 it is LONG, where the claim has a rate hike both times. The text branch of
  \<open>_signal_from_rows\<close> for the code FOMC does give the rate hike label at that row.
\<close>

theorem fomc_rate_rule_reads_forecast:
  "rule (the (get_indicators [] (asc ''FOMC_RATE''))) = Callable rule_fomc_rate \<and>
   rule_sig (rule (the (get_indicators [] (asc ''FOMC_RATE'')))) (row_of (Some (11/2)) None (Some (21/4)))
     = asc ''NEUTRAL'' \<and>
   rule_sig (rule (the (get_indicators [] (asc ''FOMC_RATE'')))) (row_of (Some (11/2)) (Some 6) (Some (21/4)))
     = asc ''LONG'' \<and>
   rule_sig (RuleStr (asc ''FOMC'')) (row_of (Some (11/2)) None (Some (21/4))) = sig_fomc_hike"
  by (simp add: get_indicators_def preset_fomc_rate rule_sig_def rule_fomc_rate_def row_of_def Let_def)
    (simp add: asc_def upper_def upper_cp_def)

text \<open>
  Claim C3 says that the LT rule gives an on-forecast label when actual and forecast are
  equal. A custom indicator stored with the code LT is held with the function
  \<open>_rule_long_if_actual_lt_forecast\<close>, whose label for actual 3 and forecast 3 is SHORT. The
  text branch of \<open>_signal_from_rows\<close> for the code LT has the on-forecast label there, and
  its label for actual below forecast is not LONG.
\<close>

theorem lt_rule_equal_is_short:
  "rule (the (get_indicators [ex_custom_lt] (c_key ex_custom_lt))) = Callable rule_long_if_actual_lt_forecast \<and>
   rule_sig (rule (the (get_indicators [ex_custom_lt] (c_key ex_custom_lt)))) (row_of (Some 3) (Some 3) None)
     = asc ''SHORT'' \<and>
   rule_sig (RuleStr (asc ''LT'')) (row_of (Some 3) (Some 3) None) = sig_on_forecast \<and>
   rule_sig (RuleStr (asc ''LT'')) (row_of (Some 2) (Some 3) None) = sig_lt_better"
  by (simp add: get_indicators_def custom_rule_def ex_custom_lt_def RULES_def rule_sig_def
        rule_long_if_actual_lt_forecast_def row_of_def Let_def asc_def upper_def upper_cp_def)







end
